theory Spec2Isabelle
  imports Main "HOL-Library.Word"
begin

unbundle bit_operations_syntax

section \<open>The NS9xxx I2C master driver (drivers/i2c/busses/i2c-ns9xxx.c)\<close>

text \<open>
  The driver is modelled by explicit state passing. Everything the code does to the
  outside world (register accesses, GPIO operations, delays, wake-ups, printk reports)
  is appended to a trace in program order; everything the outside world decides
  (what a read of the status register returns, how a wait for completion ends, what a
  GPIO line reads) is taken from an oracle, indexed by how many such questions the
  driver has asked so far. The interrupt handler runs inside the wait of
  \<open>ns9xxx_i2c_send_cmd\<close>, as one step; an interrupt that arrives at any other moment
  is not part of a run, and the spin lock, which only orders the handler against the
  caller, has no counterpart. The target is a 32-bit ARM, so \<open>unsigned int\<close>,
  \<open>unsigned long\<close> and \<open>u32\<close> are all \<open>32 word\<close> and \<open>char\<close> is
  unsigned. A C \<open>int\<close> result that is 0 or a negated errno is an \<open>errno option\<close>.
\<close>

type_synonym u32 = "32 word"
type_synonym u16 = "16 word"
type_synonym u8 = "8 word"

subsection \<open>Register layout and bit fields\<close>

datatype reg = I2C_CMD | I2C_STATUS | I2C_MASTERADDR | I2C_SLAVEADDR | I2C_CONFIG

definition I2C_CMD_TXVAL :: u32 where "I2C_CMD_TXVAL = push_bit 13 1"
definition I2C_MASTERADDR_7BIT :: u32 where "I2C_MASTERADDR_7BIT = 0"
definition I2C_MASTERADDR_10BIT :: u32 where "I2C_MASTERADDR_10BIT = 1"

definition I2C_CONFIG_CLREFMASK :: u32 where "I2C_CONFIG_CLREFMASK = 0x000001ff"
definition I2C_MASTERADDR_ADDRMASK :: u32 where "I2C_MASTERADDR_ADDRMASK = 0x000007ff"

definition I2C_CONFIG_IRQD :: u32 where "I2C_CONFIG_IRQD = push_bit 15 1"
definition I2C_CONFIG_TMDE :: u32 where "I2C_CONFIG_TMDE = push_bit 14 1"
definition I2C_CONFIG_VSCD :: u32 where "I2C_CONFIG_VSCD = push_bit 13 1"

definition I2C_MASTERADDR_ADDRSHIFT :: nat where "I2C_MASTERADDR_ADDRSHIFT = 1"
definition I2C_CONFIG_SFW_SHIFT :: nat where "I2C_CONFIG_SFW_SHIFT = 9"

definition I2C_CMD_NOP :: u32 where "I2C_CMD_NOP = 0"
definition I2C_CMD_READ :: u32 where "I2C_CMD_READ = push_bit 8 4"
definition I2C_CMD_WRITE :: u32 where "I2C_CMD_WRITE = push_bit 8 5"
definition I2C_CMD_STOP :: u32 where "I2C_CMD_STOP = push_bit 8 6"

definition I2C_IRQ_ARBITLOST :: u32 where "I2C_IRQ_ARBITLOST = push_bit 8 1"
definition I2C_IRQ_NOACK :: u32 where "I2C_IRQ_NOACK = push_bit 8 2"
definition I2C_IRQ_TXDATA :: u32 where "I2C_IRQ_TXDATA = push_bit 8 3"
definition I2C_IRQ_RXDATA :: u32 where "I2C_IRQ_RXDATA = push_bit 8 4"
definition I2C_IRQ_CMDACK :: u32 where "I2C_IRQ_CMDACK = push_bit 8 5"

definition I2C_NORMALSPEED :: u32 where "I2C_NORMALSPEED = 100000"
definition I2C_HIGHSPEED :: u32 where "I2C_HIGHSPEED = 400000"

definition I2C_STATUS_MCMDL :: u32 where "I2C_STATUS_MCMDL = 0x1000"
definition I2C_STATUS_IRQCD_MASK :: u32 where "I2C_STATUS_IRQCD_MASK = 0x0f00"
definition I2C_STATUS_RXDATA_MASK :: u32 where "I2C_STATUS_RXDATA_MASK = 0x00ff"

definition BUSY_RELEASE_ATTEMPTS :: nat where "BUSY_RELEASE_ATTEMPTS = 10"

subsection \<open>Data model\<close>

datatype i2c_int_state =
  I2C_INT_AWAITING | I2C_INT_OK | I2C_INT_RETRY | I2C_INT_ERROR | I2C_INT_ABORT

datatype errno = EIO | ETIMEDOUT | EINVAL | ENODEV

datatype gpio_line = GPIO_SCL | GPIO_SDA

text \<open>The conditions the driver reports with printk, one constructor per call site.\<close>

datatype report =
    UnlockTimeout
  | IrqTimeout u32
  | FreeNotRetrying
  | StateNotOk i2c_int_state
  | BitbangBits nat
  | ResetBusIdle
  | SdaHeldLow
  | SclLowAtStart nat
  | SdaChanged bool bool nat
  | SclLowAtEnd nat
  | SclHeldLowExternally
  | SdaHeldLowExternally
  | ResetSuccessful
  | ResetUnsuccessful nat
  | RegisterDump u32 u32 u32 i2c_int_state
  | StillLocked u32
  | ClockError
  | ReinitIdle u32
  | MasterIdle u32
  | BusyTimedOut nat
  | GivingUp nat
  | InterfaceStuck i2c_int_state
  | InterfaceStillStuck
  | WrongClock
  | ClockSet u32 u32 u32 u32

datatype event =
    RegRead reg u32
  | RegWrite reg u32
  | StateSet i2c_int_state
  | Wake
  | DisableIrq
  | EnableIrq
  | GpioDirOut gpio_line bool
  | GpioDirIn gpio_line
  | GpioSet gpio_line bool
  | GpioGet gpio_line bool
  | GpioHwMode
  | Mdelay nat
  | Msleep nat
  | Printk report

text \<open>
  How a call of \<open>wait_event_interruptible_timeout\<close> ends: the timeout elapses with the
  state still Awaiting (result 0), the controller raises its interrupt and the handler
  runs on the status word it reads (result positive), or a signal interrupts the
  sleep (result negative).
\<close>

datatype wait_outcome = WTimeout | WIrq u32 | WSignal

text \<open>
  The environment of one run. \<open>hw_window\<close> stands for the one-second polling window of
  \<open>ns9xxx_wait_while_busy\<close>: it is the number of passes of the polling loop that fit
  before \<open>time_after(jiffies, timeout)\<close> holds. \<open>scl_delay\<close> is the module parameter,
  \<open>pdata_speed\<close> the bus speed of the platform data, and \<open>mach_cme9210js\<close> says whether
  the build defines CONFIG_MACH_CME9210JS.
\<close>

record hw =
  hw_status :: "nat \<Rightarrow> u32"
  hw_wait :: "nat \<Rightarrow> wait_outcome"
  hw_gpio :: "nat \<Rightarrow> bool"
  hw_clk_rate :: u32
  hw_window :: nat
  scl_delay :: u32
  pdata_speed :: u32
  mach_cme9210js :: bool

text \<open>
  \<open>struct ns9xxx_i2c\<close> together with the memory it points into. \<open>buf\<close> is the
  cursor \<open>dev_data->buf\<close> (\<open>None\<close> is NULL), \<open>mem\<close> the caller's byte memory,
  \<open>config\<close> and \<open>masteraddr\<close> the contents of the two read-write registers, and the
  three counters say how many oracle answers have been used.
\<close>

record ns9xxx_i2c =
  buf :: "nat option"
  state :: i2c_int_state
  mem :: "nat \<Rightarrow> u8"
  config :: u32
  masteraddr :: u32
  n_status :: nat
  n_wait :: nat
  n_gpio :: nat
  trace :: "event list"

text \<open>
  \<open>struct i2c_msg\<close>. The three flag tests of the driver (\<open>flags & I2C_M_TEN\<close>,
  \<open>flags & I2C_M_RD\<close>, \<open>flags & I2C_M_NOSTART\<close>) are the three booleans;
  \<open>msg_buf\<close> is the address of the message's buffer in \<open>mem\<close>.
\<close>

record i2c_msg =
  msg_addr :: u16
  m_ten :: bool
  m_rd :: bool
  m_nostart :: bool
  msg_len :: u16
  msg_buf :: nat

subsection \<open>Primitive actions\<close>

definition emit :: "event \<Rightarrow> ns9xxx_i2c \<Rightarrow> ns9xxx_i2c" where
  "emit e s = s\<lparr>trace := trace s @ [e]\<rparr>"

definition printk :: "report \<Rightarrow> ns9xxx_i2c \<Rightarrow> ns9xxx_i2c" where
  "printk r s = emit (Printk r) s"

definition set_state :: "i2c_int_state \<Rightarrow> ns9xxx_i2c \<Rightarrow> ns9xxx_i2c" where
  "set_state x s = emit (StateSet x) (s\<lparr>state := x\<rparr>)"

definition read_status :: "hw \<Rightarrow> ns9xxx_i2c \<Rightarrow> u32 \<times> ns9xxx_i2c" where
  "read_status h s =
     (let v = hw_status h (n_status s)
      in (v, emit (RegRead I2C_STATUS v) (s\<lparr>n_status := Suc (n_status s)\<rparr>)))"

definition read_config :: "ns9xxx_i2c \<Rightarrow> u32 \<times> ns9xxx_i2c" where
  "read_config s = (config s, emit (RegRead I2C_CONFIG (config s)) s)"

definition read_masteraddr :: "ns9xxx_i2c \<Rightarrow> u32 \<times> ns9xxx_i2c" where
  "read_masteraddr s = (masteraddr s, emit (RegRead I2C_MASTERADDR (masteraddr s)) s)"

definition write_cmd :: "u32 \<Rightarrow> ns9xxx_i2c \<Rightarrow> ns9xxx_i2c" where
  "write_cmd v s = emit (RegWrite I2C_CMD v) s"

definition write_config :: "u32 \<Rightarrow> ns9xxx_i2c \<Rightarrow> ns9xxx_i2c" where
  "write_config v s = emit (RegWrite I2C_CONFIG v) (s\<lparr>config := v\<rparr>)"

definition write_masteraddr :: "u32 \<Rightarrow> ns9xxx_i2c \<Rightarrow> ns9xxx_i2c" where
  "write_masteraddr v s = emit (RegWrite I2C_MASTERADDR v) (s\<lparr>masteraddr := v\<rparr>)"

definition gpio_get_value :: "hw \<Rightarrow> gpio_line \<Rightarrow> ns9xxx_i2c \<Rightarrow> bool \<times> ns9xxx_i2c" where
  "gpio_get_value h l s =
     (let v = hw_gpio h (n_gpio s)
      in (v, emit (GpioGet l v) (s\<lparr>n_gpio := Suc (n_gpio s)\<rparr>)))"

definition emits :: "event list \<Rightarrow> ns9xxx_i2c \<Rightarrow> ns9xxx_i2c" where
  "emits es s = s\<lparr>trace := trace s @ es\<rparr>"

subsection \<open>The interrupt handler\<close>

text \<open>
  \<open>ns9xxx_i2c_irq\<close>, run on the status word its \<open>readl\<close> returns. The switch falls
  through from the receive case into the acknowledge cases.
\<close>

definition ns9xxx_i2c_irq :: "u32 \<Rightarrow> ns9xxx_i2c \<Rightarrow> ns9xxx_i2c" where
  "ns9xxx_i2c_irq status s0 =
     (let s = emit (RegRead I2C_STATUS status) s0
      in if state s \<noteq> I2C_INT_AWAITING then s
         else
           (let c = status AND I2C_STATUS_IRQCD_MASK;
                s1 =
                  (if c = I2C_IRQ_RXDATA then
                     set_state I2C_INT_OK
                       (case buf s of
                          None \<Rightarrow> s
                        | Some p \<Rightarrow>
                            s\<lparr>mem := (mem s)(p := ucast (status AND I2C_STATUS_RXDATA_MASK))\<rparr>)
                   else if c = I2C_IRQ_CMDACK \<or> c = I2C_IRQ_TXDATA then
                     set_state I2C_INT_OK s
                   else if c = I2C_IRQ_NOACK then
                     set_state I2C_INT_ABORT (write_cmd I2C_CMD_STOP s)
                   else if c = I2C_IRQ_ARBITLOST then
                     set_state I2C_INT_RETRY s
                   else set_state I2C_INT_ERROR s)
            in emit Wake s1))"

subsection \<open>Clock divider\<close>

text \<open>
  \<open>ns9xxx_i2c_set_clock\<close>. The arithmetic is that of C on \<open>unsigned long\<close>: it wraps
  modulo \<open>2 ^ 32\<close> and divides rounding down. The fast-mode case only exists when
  CONFIG_MACH_CME9210JS is not defined.
\<close>

definition ns9xxx_i2c_set_clock :: "hw \<Rightarrow> u32 \<Rightarrow> ns9xxx_i2c \<Rightarrow> errno option \<times> ns9xxx_i2c" where
  "ns9xxx_i2c_set_clock h freq s0 =
     (let (c0, s) = read_config s0;
          cfg = c0 AND NOT I2C_CONFIG_CLREFMASK
      in if freq = I2C_NORMALSPEED then
           (let cfg1 = cfg AND NOT I2C_CONFIG_TMDE;
                cfg2 = cfg1 AND NOT I2C_CONFIG_VSCD;
                cfg3 = cfg2 OR ((((hw_clk_rate h div (4 * freq)) - 4 - scl_delay h) div 2)
                                AND I2C_CONFIG_CLREFMASK)
            in (None, printk (ClockSet freq (hw_clk_rate h) (scl_delay h) cfg3)
                        (write_config cfg3 s)))
         else if \<not> mach_cme9210js h \<and> freq = I2C_HIGHSPEED then
           (let cfg1 = cfg OR I2C_CONFIG_TMDE;
                cfg2 = cfg1 AND NOT I2C_CONFIG_VSCD;
                cfg3 = cfg2 OR ((((hw_clk_rate h div (4 * freq)) - 4 - scl_delay h) * 2 div 3)
                                AND I2C_CONFIG_CLREFMASK)
            in (None, printk (ClockSet freq (hw_clk_rate h) (scl_delay h) cfg3)
                        (write_config cfg3 s)))
         else (Some EINVAL, printk WrongClock s))"

subsection \<open>Bit-bang address probe and bus reset\<close>

text \<open>
  One pass of the address loop of \<open>ns9xxx_i2c_bitbang\<close>. Both branches of the test on
  the address bit drive the data line high, as in the source.
\<close>

definition bitbang_bit :: "nat \<Rightarrow> u16 \<Rightarrow> nat \<Rightarrow> ns9xxx_i2c \<Rightarrow> ns9xxx_i2c" where
  "bitbang_bit nr_bits addr i s =
     (let s1 = (if addr AND push_bit (nr_bits - i - 1) 1 \<noteq> 0
                then emit (GpioSet GPIO_SDA True) s
                else emit (GpioSet GPIO_SDA True) s)
      in emits [Mdelay 1, GpioSet GPIO_SCL True, Mdelay 1, GpioSet GPIO_SCL False, Mdelay 1] s1)"

definition ns9xxx_i2c_bitbang :: "hw \<Rightarrow> i2c_msg \<Rightarrow> ns9xxx_i2c \<Rightarrow> errno option \<times> ns9xxx_i2c" where
  "ns9xxx_i2c_bitbang h msg s0 =
     (let s1 = emits [DisableIrq, GpioDirOut GPIO_SDA True, GpioDirOut GPIO_SCL True, Mdelay 10,
                      GpioSet GPIO_SDA False, Mdelay 1, GpioSet GPIO_SCL False, Mdelay 1] s0;
          nr_bits = (if m_ten msg then 10 else 7);
          s2 = printk (BitbangBits nr_bits) s1;
          s3 = fold (bitbang_bit nr_bits (msg_addr msg)) [0..<nr_bits] s2;
          s4 = emits [GpioDirIn GPIO_SDA, GpioSet GPIO_SCL True, Mdelay 1] s3;
          (ret, s5) = gpio_get_value h GPIO_SDA s4;
          s6 = emits [GpioDirOut GPIO_SDA True, GpioHwMode, EnableIrq] s5
      in (if ret then None else Some ENODEV, s6))"

text \<open>
  One pass of the nine-clock loop of \<open>ns9xxx_i2c_reset_bitbang\<close>, on the locals
  \<open>prev_sda\<close> and \<open>effective_cycles\<close>.
\<close>

definition reset_clock_cycle ::
  "hw \<Rightarrow> nat \<Rightarrow> bool \<times> nat \<times> ns9xxx_i2c \<Rightarrow> bool \<times> nat \<times> ns9xxx_i2c" where
  "reset_clock_cycle h i acc =
     (let (prev_sda, effective_cycles, s) = acc;
          (scl, s1) = gpio_get_value h GPIO_SCL s;
          (eff, s2) = (if \<not> scl then (effective_cycles, printk (SclLowAtStart i) s1)
                       else (effective_cycles + 1, s1));
          s3 = emits [GpioDirOut GPIO_SCL False, Mdelay 1, GpioDirIn GPIO_SCL] s2;
          (sda, s4) = gpio_get_value h GPIO_SDA s3;
          (scl2, s5) = gpio_get_value h GPIO_SCL s4;
          (prev, s6) = (if sda \<noteq> prev_sda then (sda, printk (SdaChanged prev_sda sda i) s5)
                        else (prev_sda, s5));
          s7 = (if \<not> scl2 then emit (Mdelay 1) (printk (SclLowAtEnd i) s6) else s6)
      in (prev, eff, s7))"

definition ns9xxx_i2c_reset_bitbang :: "hw \<Rightarrow> ns9xxx_i2c \<Rightarrow> ns9xxx_i2c" where
  "ns9xxx_i2c_reset_bitbang h s0 =
     (let s1 = emits [DisableIrq, GpioDirIn GPIO_SCL, GpioDirIn GPIO_SDA, Mdelay 1] s0;
          (scl, s2) = gpio_get_value h GPIO_SCL s1;
          (sda, s3) = gpio_get_value h GPIO_SDA s2;
          s4 = (if sda \<and> scl then printk ResetBusIdle s3 else s3);
          s5 = (if \<not> sda then printk SdaHeldLow s4 else s4);
          (prev_sda, effective_cycles, s6) = fold (reset_clock_cycle h) [0..<9] (sda, 0, s5);
          s7 = emits [Mdelay 1, GpioDirIn GPIO_SDA, Mdelay 1] s6;
          (scl', s8) = gpio_get_value h GPIO_SCL s7;
          (sda', s9) = gpio_get_value h GPIO_SDA s8;
          s10 = (if \<not> scl' then printk SclHeldLowExternally s9 else s9);
          s11 = (if \<not> sda' then printk SdaHeldLowExternally s10 else s10);
          s12 = (if scl' \<and> sda' then printk ResetSuccessful s11
                 else printk (ResetUnsuccessful effective_cycles) s11);
          s13 = emit GpioHwMode s12;
          (status, s14) = read_status h s13;
          (ma, s15) = read_masteraddr s14;
          (cfg, s16) = read_config s15;
          s17 = printk (RegisterDump status ma cfg (state s16)) s16
      in emit EnableIrq s17)"

subsection \<open>Busy recovery\<close>

definition ns9xxx_reinit_i2c :: "hw \<Rightarrow> ns9xxx_i2c \<Rightarrow> ns9xxx_i2c" where
  "ns9xxx_reinit_i2c h s0 =
     (let s1 = ns9xxx_i2c_reset_bitbang h s0;
          (status, s2) = read_status h s1
      in if status AND I2C_STATUS_MCMDL \<noteq> 0 then
           (let s3 = printk (StillLocked status) s2;
                s4 = emit DisableIrq s3;
                s5 = write_config (I2C_CONFIG_IRQD OR push_bit I2C_CONFIG_SFW_SHIFT 0xf) s4;
                (ret, s6) = (if pdata_speed h \<noteq> 0
                             then ns9xxx_i2c_set_clock h (pdata_speed h) s5
                             else ns9xxx_i2c_set_clock h I2C_NORMALSPEED s5);
                s7 = (if ret \<noteq> None then printk ClockError s6 else s6);
                s8 = emit EnableIrq s7;
                (c, s9) = read_config s8
            in write_config (c AND NOT I2C_CONFIG_IRQD) s9)
         else printk (ReinitIdle status) s2)"

text \<open>
  The inner polling loop of \<open>ns9xxx_wait_while_busy\<close>, with the number of passes the
  window still admits. The result says whether the lock bit was seen clear.
\<close>

fun poll_window :: "hw \<Rightarrow> nat \<Rightarrow> ns9xxx_i2c \<Rightarrow> bool \<times> ns9xxx_i2c" where
  "poll_window h 0 s = (False, s)"
| "poll_window h (Suc n) s =
     (let (status, s1) = read_status h s
      in if status AND I2C_STATUS_MCMDL = 0 then
           (let s2 = emit (Msleep 1) s1;
                (status2, s3) = read_status h s2
            in (True, printk (MasterIdle status2) s3))
         else poll_window h n (emit (Msleep 1) s1))"

text \<open>The outer loop of \<open>ns9xxx_wait_while_busy\<close>, from attempt index \<open>i\<close>.\<close>

function busy_attempts :: "hw \<Rightarrow> nat \<Rightarrow> ns9xxx_i2c \<Rightarrow> errno option \<times> ns9xxx_i2c" where
  "busy_attempts h i s =
     (if i < BUSY_RELEASE_ATTEMPTS then
        (case poll_window h (hw_window h) s of
           (True, s1) \<Rightarrow> (None, s1)
         | (False, s1) \<Rightarrow>
             busy_attempts h (i + 1) (ns9xxx_reinit_i2c h (printk (BusyTimedOut (i + 1)) s1)))
      else (Some ETIMEDOUT, printk (GivingUp BUSY_RELEASE_ATTEMPTS) s))"
  by pat_completeness auto
termination
  by (relation "measure (\<lambda>(h, i, s). BUSY_RELEASE_ATTEMPTS - i)") auto

declare busy_attempts.simps [simp del]

definition ns9xxx_wait_while_busy :: "hw \<Rightarrow> ns9xxx_i2c \<Rightarrow> errno option \<times> ns9xxx_i2c" where
  "ns9xxx_wait_while_busy h s =
     (let (status, s1) = read_status h s
      in if status AND I2C_STATUS_MCMDL = 0 then (None, s1)
         else busy_attempts h 0 s1)"

subsection \<open>Command and wait\<close>

definition wait_event :: "hw \<Rightarrow> ns9xxx_i2c \<Rightarrow> wait_outcome \<times> ns9xxx_i2c" where
  "wait_event h s =
     (let w = hw_wait h (n_wait s);
          s1 = s\<lparr>n_wait := Suc (n_wait s)\<rparr>
      in case w of
           WIrq status \<Rightarrow> (w, ns9xxx_i2c_irq status s1)
         | _ \<Rightarrow> (w, s1))"

text \<open>
  \<open>ns9xxx_i2c_send_cmd\<close>. The block under \<open>#if 0\<close> is not compiled and has no
  counterpart here.
\<close>

definition ns9xxx_i2c_send_cmd :: "hw \<Rightarrow> u32 \<Rightarrow> ns9xxx_i2c \<Rightarrow> errno option \<times> ns9xxx_i2c" where
  "ns9xxx_i2c_send_cmd h cmd s0 =
     (let (status, s1) = read_status h s0;
          (busy, s2) = (if status AND I2C_STATUS_MCMDL \<noteq> 0 then ns9xxx_wait_while_busy h s1
                        else (None, s1))
      in if busy \<noteq> None then (Some ETIMEDOUT, printk UnlockTimeout s2)
         else
           (let s3 = write_cmd cmd (set_state I2C_INT_AWAITING s2);
                (w, s4) = wait_event h s3
            in if w = WTimeout then
                 (let s5 = printk (IrqTimeout cmd) s4;
                      (free, s6) = ns9xxx_wait_while_busy h s5;
                      s7 = (if free = None then printk FreeNotRetrying s6 else s6)
                  in (Some ETIMEDOUT, s7))
               else if state s4 \<noteq> I2C_INT_OK then (Some EIO, printk (StateNotOk (state s4)) s4)
               else (None, s4)))"

subsection \<open>Byte transfer\<close>

text \<open>
  \<open>ns9xxx_i2c_read\<close>. The cursor is advanced whatever it is: NULL is the address 0,
  so \<open>dev_data->buf++\<close> on a NULL cursor leaves the address 1.
\<close>

fun ns9xxx_i2c_read :: "hw \<Rightarrow> nat \<Rightarrow> ns9xxx_i2c \<Rightarrow> errno option \<times> ns9xxx_i2c" where
  "ns9xxx_i2c_read h (Suc (Suc n)) s =
     (let s1 = s\<lparr>buf := (case buf s of None \<Rightarrow> Some (Suc 0) | Some p \<Rightarrow> Some (Suc p))\<rparr>;
          (ret, s2) = ns9xxx_i2c_send_cmd h I2C_CMD_NOP s1
      in if ret \<noteq> None then (ret, s2) else ns9xxx_i2c_read h (Suc n) s2)"
| "ns9xxx_i2c_read h count s = (None, s)"

text \<open>\<open>ns9xxx_i2c_write\<close> on the address \<open>p\<close> of the next byte and the remaining count.\<close>

fun ns9xxx_i2c_write :: "hw \<Rightarrow> nat \<Rightarrow> nat \<Rightarrow> ns9xxx_i2c \<Rightarrow> errno option \<times> ns9xxx_i2c" where
  "ns9xxx_i2c_write h p 0 s = (None, s)"
| "ns9xxx_i2c_write h p (Suc n) s =
     (let (ret, s1) = ns9xxx_i2c_send_cmd h (I2C_CMD_NOP OR I2C_CMD_TXVAL OR ucast (mem s p)) s
      in if ret \<noteq> None then (ret, s1) else ns9xxx_i2c_write h (Suc p) n s1)"

subsection \<open>Transfer\<close>

text \<open>
  How one pass of the body of the message loop ends: it falls off its end (\<open>Next\<close>),
  executes \<open>i = 0; continue\<close> (\<open>Restart\<close>), or executes \<open>break\<close>.
\<close>

datatype loop_ctl = Next | Restart | Break

definition xfer_payload ::
  "hw \<Rightarrow> i2c_msg \<Rightarrow> nat \<Rightarrow> nat \<Rightarrow> ns9xxx_i2c \<Rightarrow> loop_ctl \<times> errno option \<times> ns9xxx_i2c" where
  "xfer_payload h m len p s =
     (let (ret, s1) = (if m_rd m then ns9xxx_i2c_read h len s else ns9xxx_i2c_write h p len s)
      in if ret \<noteq> None then
           (if state s1 = I2C_INT_RETRY then (Restart, ret, s1) else (Break, ret, s1))
         else (Next, ret, s1))"

text \<open>The body of the message loop after the retry test, for the message \<open>msgs[i]\<close>.\<close>

definition xfer_msg :: "hw \<Rightarrow> i2c_msg \<Rightarrow> ns9xxx_i2c \<Rightarrow> loop_ctl \<times> errno option \<times> ns9xxx_i2c" where
  "xfer_msg h m s0 =
     (let len = unat (msg_len m);
          p = msg_buf m;
          s = s0\<lparr>buf := Some p\<rparr>
      in if msg_len m = 0 then
           (let (ret, s1) = ns9xxx_i2c_bitbang h m s in (Next, ret, s1))
         else if \<not> m_nostart m then
           (let reg = push_bit I2C_MASTERADDR_ADDRSHIFT (ucast (msg_addr m) AND I2C_MASTERADDR_ADDRMASK);
                reg1 = (if m_ten m then reg OR I2C_MASTERADDR_10BIT else reg OR I2C_MASTERADDR_7BIT);
                s1 = write_masteraddr reg1 s;
                (cmd, len1, p1) =
                  (if m_rd m then (I2C_CMD_READ, len, p)
                   else (I2C_CMD_WRITE OR I2C_CMD_TXVAL OR ucast (mem s1 p), len - 1, Suc p));
                (ret, s2) = ns9xxx_i2c_send_cmd h cmd s1
            in if ret \<noteq> None then
                 (if state s2 = I2C_INT_RETRY then (Restart, ret, s2) else (Break, ret, s2))
               else xfer_payload h m len1 p1 s2)
         else xfer_payload h m len p s)"

text \<open>
  The retry test at the head of the loop body, on the locals \<open>retry\<close> and \<open>ret\<close>:
  \<open>Inl\<close> is the \<open>return -EIO\<close>.
\<close>

definition xfer_retry ::
  "hw \<Rightarrow> u32 \<Rightarrow> errno option \<Rightarrow> ns9xxx_i2c \<Rightarrow>
     (errno \<times> u32 \<times> ns9xxx_i2c) + (errno option \<times> u32 \<times> ns9xxx_i2c)" where
  "xfer_retry h retry ret s =
     (if state s = I2C_INT_RETRY then
        (let (r, s1) = ns9xxx_i2c_send_cmd h I2C_CMD_STOP s;
             retry1 = retry - 1
         in if r \<noteq> None \<or> retry1 = 0 then Inl (EIO, retry1, s1) else Inr (r, retry1, s1))
      else Inr (ret, retry, s))"

text \<open>
  How the message loop is left, with the values of the locals at that point: by the
  \<open>return\<close> inside it, or at its end (condition false or \<open>break\<close>) with \<open>i\<close>,
  \<open>ret\<close> and \<open>retry\<close>.
\<close>

datatype loop_result =
    LoopReturn errno u32 ns9xxx_i2c
  | LoopExit nat "errno option" u32 ns9xxx_i2c

text \<open>
  The message loop of \<open>ns9xxx_i2c_xfer\<close> from index \<open>i\<close>. After \<open>i = 0; continue\<close>
  the increment of the \<open>for\<close> statement runs before the next pass, which is the
  \<open>0 + 1\<close> below.
\<close>

function xfer_loop ::
  "hw \<Rightarrow> i2c_msg list \<Rightarrow> nat \<Rightarrow> u32 \<Rightarrow> errno option \<Rightarrow> ns9xxx_i2c \<Rightarrow> loop_result" where
  "xfer_loop h msgs i retry ret s =
     (if i < length msgs then
        (case xfer_retry h retry ret s of
           Inl (e, retry1, s1) \<Rightarrow> LoopReturn e retry1 s1
         | Inr (ret1, retry1, s1) \<Rightarrow>
             (case xfer_msg h (msgs ! i) s1 of
                (Next, ret2, s2) \<Rightarrow> xfer_loop h msgs (i + 1) retry1 ret2 s2
              | (Restart, ret2, s2) \<Rightarrow> xfer_loop h msgs (0 + 1) retry1 ret2 s2
              | (Break, ret2, s2) \<Rightarrow> LoopExit i ret2 retry1 s2))
      else LoopExit i ret retry s)"
  by pat_completeness auto
termination
proof (relation "measures [\<lambda>(h, msgs, i, retry, ret, s).
                              2 * unat (retry - 1) + (if state s = I2C_INT_RETRY then 0 else 1),
                            \<lambda>(h, msgs, i, retry, ret, s). length msgs - i]", goal_cases)
  case 1
  show ?case by simp
next
  case (2 h msgs i retry ret s x2 ret1 y retry1 s1 v ya ret2 s2)
  have dec: "unat (w - 1) < unat w" if "w \<noteq> 0" for w :: u32
    using unat_minus_one [OF that] unat_gt_0 [of w] that by simp
  from 2 show ?case
    using dec [of "retry - 1"]
    by (auto simp: xfer_retry_def Let_def split: if_splits prod.splits)
next
  case (3 h msgs i retry ret s x2 ret1 y retry1 s1 v ya ret2 s2)
  have dec: "unat (w - 1) < unat w" if "w \<noteq> 0" for w :: u32
    using unat_minus_one [OF that] unat_gt_0 [of w] that by simp
  from 3 have r: "state s2 = I2C_INT_RETRY"
    by (auto simp: xfer_msg_def xfer_payload_def Let_def split: if_splits prod.splits)
  from 3 r show ?case
    using dec [of "retry - 1"]
    by (auto simp: xfer_retry_def Let_def split: if_splits prod.splits)
qed

declare xfer_loop.simps [simp del]

text \<open>
  \<open>ns9xxx_i2c_xfer\<close> with \<open>num = length msgs\<close>. The result is \<open>Inl\<close> for a negative
  return value and \<open>Inr\<close> for the count.
\<close>

definition ns9xxx_i2c_xfer ::
  "hw \<Rightarrow> i2c_msg list \<Rightarrow> ns9xxx_i2c \<Rightarrow> (errno + nat) \<times> ns9xxx_i2c" where
  "ns9xxx_i2c_xfer h msgs s0 =
     (case xfer_loop h msgs 0 10 None (set_state I2C_INT_OK s0) of
        LoopReturn e retry s \<Rightarrow> (Inl e, s)
      | LoopExit i ret retry s \<Rightarrow>
          (let (r1, s1) = ns9xxx_i2c_send_cmd h I2C_CMD_STOP s;
               s5 = (if r1 \<noteq> None then
                       (let s2 = printk (InterfaceStuck (state s1)) s1;
                            (r2, s3) = ns9xxx_i2c_send_cmd h I2C_CMD_NOP s2;
                            (r3, s4) = ns9xxx_i2c_send_cmd h I2C_CMD_STOP s3
                        in if r3 \<noteq> None
                           then ns9xxx_i2c_reset_bitbang h (printk InterfaceStillStuck s4)
                           else s4)
                     else s1);
               s6 = s5\<lparr>buf := None\<rparr>
           in (case ret of Some e \<Rightarrow> Inl e | None \<Rightarrow> Inr i, s6)))"

subsection \<open>Projections of the trace\<close>

text \<open>The words written to the command register, in order.\<close>

fun cmd_writes :: "event list \<Rightarrow> u32 list" where
  "cmd_writes [] = []"
| "cmd_writes (RegWrite I2C_CMD v # es) = v # cmd_writes es"
| "cmd_writes (e # es) = cmd_writes es"

text \<open>The words written to the master address register, in order.\<close>

fun masteraddr_writes :: "event list \<Rightarrow> u32 list" where
  "masteraddr_writes [] = []"
| "masteraddr_writes (RegWrite I2C_MASTERADDR v # es) = v # masteraddr_writes es"
| "masteraddr_writes (e # es) = masteraddr_writes es"

text \<open>The words written to the configuration register, in order.\<close>

fun config_writes :: "event list \<Rightarrow> u32 list" where
  "config_writes [] = []"
| "config_writes (RegWrite I2C_CONFIG v # es) = v # config_writes es"
| "config_writes (e # es) = config_writes es"

text \<open>
  The number of calls of \<open>ns9xxx_reinit_i2c\<close>: each call prints exactly one of its two
  reports (master module still locked, or master module idle), and nothing else
  prints them.
\<close>

fun reinit_count :: "event list \<Rightarrow> nat" where
  "reinit_count [] = 0"
| "reinit_count (Printk (StillLocked v) # es) = Suc (reinit_count es)"
| "reinit_count (Printk (ReinitIdle v) # es) = Suc (reinit_count es)"
| "reinit_count (e # es) = reinit_count es"

text \<open>
  The number of attempt reports of \<open>ns9xxx_wait_while_busy\<close> (transaction timed out,
  attempt \<open>n\<close>).
\<close>

fun attempt_reports :: "event list \<Rightarrow> nat" where
  "attempt_reports [] = 0"
| "attempt_reports (Printk (BusyTimedOut n) # es) = Suc (attempt_reports es)"
| "attempt_reports (e # es) = attempt_reports es"

text \<open>The number of one-millisecond sleeps of the polling loop.\<close>

fun msleep_count :: "event list \<Rightarrow> nat" where
  "msleep_count [] = 0"
| "msleep_count (Msleep n # es) = Suc (msleep_count es)"
| "msleep_count (e # es) = msleep_count es"

text \<open>The number of runs of the full GPIO bus reset: it alone prints the register dump.\<close>

fun bus_resets :: "event list \<Rightarrow> nat" where
  "bus_resets [] = 0"
| "bus_resets (Printk (RegisterDump a b c d) # es) = Suc (bus_resets es)"
| "bus_resets (e # es) = bus_resets es"

text \<open>The number of times the completion state was set to Retry.\<close>

fun retry_count :: "event list \<Rightarrow> nat" where
  "retry_count [] = 0"
| "retry_count (StateSet I2C_INT_RETRY # es) = Suc (retry_count es)"
| "retry_count (e # es) = retry_count es"

text \<open>
  The polling that precedes each reinitialisation. A pass of the polling loop that
  finds the controller locked is a read of the status register with the lock bit set,
  followed at once by a sleep. Going through a trace from its start, \<open>poll_step\<close>
  keeps the list \<open>out\<close> made so far, whether the event just seen was a status read with
  the lock bit set (\<open>l\<close>), and the number \<open>c\<close> of such passes since the last
  reinitialisation; at the report of a reinitialisation it appends \<open>c\<close> to the list
  and starts again from 0. So \<open>poll_windows\<close> has one entry for every call of
  \<open>ns9xxx_reinit_i2c\<close>, the number of locked passes that came before it, and
  \<open>pending_polls\<close> is the number of locked passes after the last one.
\<close>

definition poll_step :: "nat list \<times> bool \<times> nat \<Rightarrow> event \<Rightarrow> nat list \<times> bool \<times> nat" where
  "poll_step a e =
     (case a of (out, l, c) \<Rightarrow>
        (case e of
           RegRead r v \<Rightarrow> (out, r = I2C_STATUS \<and> v AND I2C_STATUS_MCMDL \<noteq> 0, c)
         | Msleep n \<Rightarrow> (out, False, if l then Suc c else c)
         | Printk rep \<Rightarrow>
             (case rep of
                StillLocked v \<Rightarrow> (out @ [c], False, 0)
              | ReinitIdle v \<Rightarrow> (out @ [c], False, 0)
              | _ \<Rightarrow> (out, False, c))
         | _ \<Rightarrow> (out, False, c)))"

definition poll_windows :: "event list \<Rightarrow> nat list" where
  "poll_windows es = fst (foldl poll_step ([], False, 0) es)"

definition pending_polls :: "event list \<Rightarrow> nat" where
  "pending_polls es = snd (snd (foldl poll_step ([], False, 0) es))"

text \<open>
  What the recovery paths leave alone: the cursor, the memory, the completion state, the
  number of waits, the command register writes and the number of Retry completions.
\<close>

definition core ::
  "ns9xxx_i2c \<Rightarrow>
     nat option \<times> (nat \<Rightarrow> u8) \<times> i2c_int_state \<times> nat \<times> u32 list \<times> nat" where
  "core s = (buf s, mem s, state s, n_wait s, cmd_writes (trace s), retry_count (trace s))"

text \<open>What a reinitialisation leaves alone: the attempt reports and the sleeps.\<close>

definition polls :: "ns9xxx_i2c \<Rightarrow> nat \<times> nat" where
  "polls s = (attempt_reports (trace s), msleep_count (trace s))"

text \<open>
  What the GPIO bus reset and the clock setting leave alone: the reinitialisations
  counted so far and the polling before them.
\<close>

definition marks :: "ns9xxx_i2c \<Rightarrow> nat \<times> nat list \<times> nat" where
  "marks s = (reinit_count (trace s), poll_windows (trace s), pending_polls (trace s))"

subsection \<open>Concrete devices, environments and messages\<close>

text \<open>The device structure as \<open>kzalloc\<close> leaves it, with both registers zero.\<close>

definition dev0 :: ns9xxx_i2c where
  "dev0 = \<lparr>buf = None, state = I2C_INT_AWAITING, mem = (\<lambda>_. 0), config = 0, masteraddr = 0,
           n_status = 0, n_wait = 0, n_gpio = 0, trace = []\<rparr>"

text \<open>
  A device whose caller memory holds the byte \<open>0x41\<close> at address 100 and \<open>0x42\<close> at
  address 101.
\<close>

definition dev_mem :: ns9xxx_i2c where
  "dev_mem = dev0\<lparr>mem := (\<lambda>a. if a = 100 then 0x41 else if a = 101 then 0x42 else 0)\<rparr>"

text \<open>
  Ways for the waits of a run to end: as listed in \<open>ws\<close>, and as \<open>d\<close> once the list
  is used up; or with arbitration lost on every even wait and a command
  acknowledge on every odd one.
\<close>

definition answers :: "wait_outcome list \<Rightarrow> wait_outcome \<Rightarrow> nat \<Rightarrow> wait_outcome" where
  "answers ws d n = (if n < length ws then ws ! n else d)"

definition arb_always :: "nat \<Rightarrow> wait_outcome" where
  "arb_always n = (if even n then WIrq 0x100 else WIrq 0x500)"

text \<open>
  An idle controller on a 150 MHz clock: the lock bit always reads clear, GPIO lines read
  high, and the answer to each command is chosen by \<open>w\<close>.
\<close>

definition hw_idle :: "(nat \<Rightarrow> wait_outcome) \<Rightarrow> hw" where
  "hw_idle w = \<lparr>hw_status = (\<lambda>_. 0), hw_wait = w, hw_gpio = (\<lambda>_. True),
               hw_clk_rate = 150000000, hw_window = 1000, scl_delay = 0, pdata_speed = 0,
               mach_cme9210js = False\<rparr>"

text \<open>The same controller with the data line read low.\<close>

definition hw_sda_low :: hw where
  "hw_sda_low = (hw_idle (answers [] (WIrq 0x500)))\<lparr>hw_gpio := (\<lambda>_. False)\<rparr>"

text \<open>
  A controller whose lock bit never clears, with a polling window of three passes.
\<close>

definition hw_locked :: hw where
  "hw_locked = \<lparr>hw_status = (\<lambda>_. 0x1000), hw_wait = (\<lambda>_. WTimeout), hw_gpio = (\<lambda>_. True),
               hw_clk_rate = 150000000, hw_window = 3, scl_delay = 0, pdata_speed = 0,
               mach_cme9210js = False\<rparr>"

text \<open>A zero-length message to the 7-bit address \<open>a\<close>.\<close>

definition probe :: "u16 \<Rightarrow> i2c_msg" where
  "probe a = \<lparr>msg_addr = a, m_ten = False, m_rd = False, m_nostart = False,
             msg_len = 0, msg_buf = 0\<rparr>"

text \<open>A one-byte write to the 7-bit address \<open>a\<close>, its buffer at \<open>p\<close>.\<close>

definition write1 :: "u16 \<Rightarrow> nat \<Rightarrow> i2c_msg" where
  "write1 a p = \<lparr>msg_addr = a, m_ten = False, m_rd = False, m_nostart = False,
                msg_len = 1, msg_buf = p\<rparr>"

section \<open>Properties\<close>

subsection \<open>Auxiliary facts\<close>

lemmas prim_defs = emit_def emits_def printk_def set_state_def read_status_def read_config_def
  read_masteraddr_def write_cmd_def write_config_def write_masteraddr_def gpio_get_value_def

lemmas const_defs = I2C_CMD_TXVAL_def I2C_CONFIG_CLREFMASK_def I2C_CONFIG_TMDE_def
  I2C_CONFIG_VSCD_def I2C_CONFIG_IRQD_def I2C_CMD_NOP_def I2C_CMD_READ_def I2C_CMD_WRITE_def
  I2C_CMD_STOP_def I2C_IRQ_ARBITLOST_def I2C_IRQ_NOACK_def I2C_IRQ_TXDATA_def I2C_IRQ_RXDATA_def
  I2C_IRQ_CMDACK_def I2C_NORMALSPEED_def I2C_HIGHSPEED_def I2C_STATUS_MCMDL_def
  I2C_STATUS_IRQCD_MASK_def I2C_STATUS_RXDATA_MASK_def I2C_MASTERADDR_ADDRMASK_def
  I2C_MASTERADDR_ADDRSHIFT_def I2C_MASTERADDR_7BIT_def I2C_MASTERADDR_10BIT_def
  I2C_CONFIG_SFW_SHIFT_def

lemmas drv_defs = ns9xxx_i2c_xfer_def xfer_retry_def xfer_msg_def xfer_payload_def
  ns9xxx_i2c_send_cmd_def wait_event_def ns9xxx_i2c_irq_def ns9xxx_wait_while_busy_def

lemmas ex_defs = hw_idle_def write1_def dev0_def dev_mem_def answers_def arb_always_def
  hw_sda_low_def probe_def

lemma cmd_writes_append: "cmd_writes (xs @ ys) = cmd_writes xs @ cmd_writes ys"
  by (induction xs rule: cmd_writes.induct) simp_all

lemma config_writes_append: "config_writes (xs @ ys) = config_writes xs @ config_writes ys"
  by (induction xs rule: config_writes.induct) simp_all

lemma reinit_count_append: "reinit_count (xs @ ys) = reinit_count xs + reinit_count ys"
  by (induction xs rule: reinit_count.induct) simp_all

lemma attempt_reports_append:
  "attempt_reports (xs @ ys) = attempt_reports xs + attempt_reports ys"
  by (induction xs rule: attempt_reports.induct) simp_all

lemma bus_resets_append: "bus_resets (xs @ ys) = bus_resets xs + bus_resets ys"
  by (induction xs rule: bus_resets.induct) simp_all

lemma retry_count_append: "retry_count (xs @ ys) = retry_count xs + retry_count ys"
  by (induction xs rule: retry_count.induct) simp_all

lemma msleep_count_append: "msleep_count (xs @ ys) = msleep_count xs + msleep_count ys"
  by (induction xs rule: msleep_count.induct) simp_all

lemmas proj_append = cmd_writes_append config_writes_append reinit_count_append
  msleep_count_append attempt_reports_append bus_resets_append retry_count_append

lemma irq_codes_distinct:
  "I2C_IRQ_NOACK \<noteq> I2C_IRQ_RXDATA" "I2C_IRQ_NOACK \<noteq> I2C_IRQ_CMDACK"
  "I2C_IRQ_NOACK \<noteq> I2C_IRQ_TXDATA" "I2C_IRQ_NOACK \<noteq> I2C_IRQ_ARBITLOST"
  by (simp_all add: const_defs)

lemma clref_field:
  "((((c AND NOT I2C_CONFIG_CLREFMASK) AND NOT I2C_CONFIG_TMDE) AND NOT I2C_CONFIG_VSCD)
      OR (x AND I2C_CONFIG_CLREFMASK)) AND I2C_CONFIG_CLREFMASK = x AND I2C_CONFIG_CLREFMASK"
  by (rule bit_word_eqI) (auto simp: bit_simps)

lemma clrefmask_mask: "I2C_CONFIG_CLREFMASK = mask 9"
  by (simp add: I2C_CONFIG_CLREFMASK_def mask_eq_exp_minus_1)

lemma clref_field_fast:
  "((((c AND NOT I2C_CONFIG_CLREFMASK) OR I2C_CONFIG_TMDE) AND NOT I2C_CONFIG_VSCD)
      OR (x AND I2C_CONFIG_CLREFMASK)) AND I2C_CONFIG_CLREFMASK = x AND I2C_CONFIG_CLREFMASK"
proof -
  have t: "bit I2C_CONFIG_TMDE n \<longleftrightarrow> n = 14" for n
  proof -
    have e: "I2C_CONFIG_TMDE = 2 ^ 14" by (simp add: I2C_CONFIG_TMDE_def)
    show ?thesis by (subst e, subst bit_exp_iff) auto
  qed
  show ?thesis
    unfolding clrefmask_mask
    by (rule bit_word_eqI) (auto simp: bit_simps t)
qed

subsection \<open>The interrupt handler on a no-acknowledge cause\<close>

text \<open>
  Claim C7. When the handler runs in state Awaiting on a status word whose cause field
  is no-acknowledge, it reads the status, writes the STOP word to the command register,
  then sets the state to Abort, then wakes the waiter, in this order and with nothing
  else. And whenever a run of the handler moves the state to Abort, its trace is this
  one: Abort is not reached without the STOP write before it.
\<close>

theorem irq_noack_stop_before_abort:
  "(state s = I2C_INT_AWAITING \<and> status AND I2C_STATUS_IRQCD_MASK = I2C_IRQ_NOACK \<longrightarrow>
      state (ns9xxx_i2c_irq status s) = I2C_INT_ABORT \<and>
      trace (ns9xxx_i2c_irq status s) =
        trace s @ [RegRead I2C_STATUS status, RegWrite I2C_CMD I2C_CMD_STOP,
                   StateSet I2C_INT_ABORT, Wake])
   \<and> (state s \<noteq> I2C_INT_ABORT \<and> state (ns9xxx_i2c_irq status s) = I2C_INT_ABORT \<longrightarrow>
      trace (ns9xxx_i2c_irq status s) =
        trace s @ [RegRead I2C_STATUS status, RegWrite I2C_CMD I2C_CMD_STOP,
                   StateSet I2C_INT_ABORT, Wake])"
  by (auto simp: ns9xxx_i2c_irq_def Let_def prim_defs irq_codes_distinct
           split: option.splits if_splits)

text \<open>
  Claim C7, at a concrete input: the freshly allocated device (state Awaiting) and the
  status word \<open>0x200\<close>.
\<close>

theorem irq_noack_stop_before_abort_witness:
  "state dev0 = I2C_INT_AWAITING \<and> (0x200 :: u32) AND I2C_STATUS_IRQCD_MASK = I2C_IRQ_NOACK \<and>
   state dev0 \<noteq> I2C_INT_ABORT \<and>
   state (ns9xxx_i2c_irq 0x200 dev0) = I2C_INT_ABORT \<and>
   trace (ns9xxx_i2c_irq 0x200 dev0) =
     [RegRead I2C_STATUS 0x200, RegWrite I2C_CMD 0x600, StateSet I2C_INT_ABORT, Wake]"
  using irq_noack_stop_before_abort [of dev0 "0x200"]
  by (simp add: dev0_def const_defs)

subsection \<open>The clock divider\<close>

text \<open>
  Claim C10. For every frequency other than 100000 and 400000 the clock-setting
  operation returns EINVAL; it reads the configuration register, reports the wrong
  clock, and writes nothing: the device is unchanged apart from these two trace entries.
\<close>

theorem set_clock_rejects_other_frequencies:
  "freq \<noteq> I2C_NORMALSPEED \<Longrightarrow> freq \<noteq> I2C_HIGHSPEED \<Longrightarrow>
     ns9xxx_i2c_set_clock h freq s =
       (Some EINVAL, s\<lparr>trace := trace s @ [RegRead I2C_CONFIG (config s), Printk WrongClock]\<rparr>)"
  by (simp add: ns9xxx_i2c_set_clock_def Let_def prim_defs)

text \<open>Claim C10, at the frequency 50000 on the freshly allocated device.\<close>

theorem set_clock_rejects_other_frequencies_witness:
  "(50000 :: u32) \<noteq> I2C_NORMALSPEED \<and> (50000 :: u32) \<noteq> I2C_HIGHSPEED \<and>
   fst (ns9xxx_i2c_set_clock (hw_idle (answers [] WTimeout)) 50000 dev0) = Some EINVAL \<and>
   config (snd (ns9xxx_i2c_set_clock (hw_idle (answers [] WTimeout)) 50000 dev0)) = config dev0 \<and>
   config_writes (trace (snd (ns9xxx_i2c_set_clock (hw_idle (answers [] WTimeout)) 50000 dev0))) = []"
  using set_clock_rejects_other_frequencies [of 50000 "hw_idle (answers [] WTimeout)" dev0]
  by (simp add: dev0_def const_defs)

text \<open>
  Claim C5 as stated fails: the field is masked with \<open>0x1ff\<close>, nine bits, not seven.
  On a 150 MHz clock with delay 0 and the configuration register at 0, the 100 kHz
  setting writes 185 to the register, while the formula masked to seven bits is 57.
\<close>

theorem set_clock_seven_bit_mask_counterexample:
  "config (snd (ns9xxx_i2c_set_clock (hw_idle (answers [] WTimeout)) I2C_NORMALSPEED dev0)) = 185 \<and>
   ((((hw_clk_rate (hw_idle (answers [] WTimeout)) div (4 * I2C_NORMALSPEED)) - 4
        - scl_delay (hw_idle (answers [] WTimeout))) div 2) AND 0x7f) = (57 :: u32)"
  by (simp add: ns9xxx_i2c_set_clock_def Let_def prim_defs hw_idle_def dev0_def const_defs
        answers_def)

text \<open>
  Claim C5, amended. For every clock rate, delay and previous configuration, in
  arithmetic modulo \<open>2 ^ 32\<close>: at 100 kHz, and at 400 kHz on a build without
  CONFIG_MACH_CME9210JS, the operation succeeds, the word it writes to the
  configuration register is the new configuration, and the nine low bits of that word
  (mask \<open>0x1ff\<close>) equal the formula masked with \<open>0x1ff\<close>.
\<close>

theorem set_clock_divider_field:
  "(freq = I2C_NORMALSPEED \<longrightarrow>
      fst (ns9xxx_i2c_set_clock h freq s) = None \<and>
      config_writes (trace (snd (ns9xxx_i2c_set_clock h freq s))) =
        config_writes (trace s) @ [config (snd (ns9xxx_i2c_set_clock h freq s))] \<and>
      config (snd (ns9xxx_i2c_set_clock h freq s)) AND 0x1ff =
        (((hw_clk_rate h div (4 * freq)) - 4 - scl_delay h) div 2) AND 0x1ff)
   \<and> (freq = I2C_HIGHSPEED \<and> \<not> mach_cme9210js h \<longrightarrow>
      fst (ns9xxx_i2c_set_clock h freq s) = None \<and>
      config_writes (trace (snd (ns9xxx_i2c_set_clock h freq s))) =
        config_writes (trace s) @ [config (snd (ns9xxx_i2c_set_clock h freq s))] \<and>
      config (snd (ns9xxx_i2c_set_clock h freq s)) AND 0x1ff =
        (((hw_clk_rate h div (4 * freq)) - 4 - scl_delay h) * 2 div 3) AND 0x1ff)"
proof -
  have m: "(0x1ff :: u32) = I2C_CONFIG_CLREFMASK"
    by (simp add: I2C_CONFIG_CLREFMASK_def)
  have ne: "I2C_HIGHSPEED \<noteq> I2C_NORMALSPEED"
    by (simp add: I2C_HIGHSPEED_def I2C_NORMALSPEED_def)
  show ?thesis
    unfolding m
    by (simp add: ns9xxx_i2c_set_clock_def Let_def prim_defs clref_field clref_field_fast ne
          proj_append)
qed

text \<open>
  Claim C5, amended, at concrete inputs: the 150 MHz clock with delay 0, at both
  frequencies.
\<close>

theorem set_clock_divider_field_witness:
  "fst (ns9xxx_i2c_set_clock (hw_idle (answers [] WTimeout)) I2C_NORMALSPEED dev0) = None \<and>
   config (snd (ns9xxx_i2c_set_clock (hw_idle (answers [] WTimeout)) I2C_NORMALSPEED dev0)) AND 0x1ff
     = 185 \<and>
   \<not> mach_cme9210js (hw_idle (answers [] WTimeout)) \<and>
   fst (ns9xxx_i2c_set_clock (hw_idle (answers [] WTimeout)) I2C_HIGHSPEED dev0) = None \<and>
   config (snd (ns9xxx_i2c_set_clock (hw_idle (answers [] WTimeout)) I2C_HIGHSPEED dev0)) AND 0x1ff
     = 59"
  using set_clock_divider_field [of I2C_NORMALSPEED "hw_idle (answers [] WTimeout)" dev0]
    set_clock_divider_field [of I2C_HIGHSPEED "hw_idle (answers [] WTimeout)" dev0]
  by (simp add: hw_idle_def const_defs)


subsection \<open>What the recovery paths leave alone\<close>

lemma core_prims:
  "cmd_writes [e] = [] \<Longrightarrow> retry_count [e] = 0 \<Longrightarrow> core (emit e s) = core s"
  "cmd_writes es = [] \<Longrightarrow> retry_count es = 0 \<Longrightarrow> core (emits es s) = core s"
  "core (printk r s) = core s"
  "core (snd (read_status h s)) = core s"
  "core (snd (read_config s)) = core s"
  "core (snd (read_masteraddr s)) = core s"
  "core (write_config v s) = core s"
  "core (snd (gpio_get_value h l s)) = core s"
  by (simp_all add: core_def prim_defs proj_append Let_def)

lemma polls_prims:
  "attempt_reports [e] = 0 \<Longrightarrow> msleep_count [e] = 0 \<Longrightarrow> polls (emit e s) = polls s"
  "attempt_reports es = 0 \<Longrightarrow> msleep_count es = 0 \<Longrightarrow> polls (emits es s) = polls s"
  "attempt_reports [Printk r] = 0 \<Longrightarrow> polls (printk r s) = polls s"
  "polls (snd (read_status h s)) = polls s"
  "polls (snd (read_config s)) = polls s"
  "polls (snd (read_masteraddr s)) = polls s"
  "polls (write_config v s) = polls s"
  "polls (snd (gpio_get_value h l s)) = polls s"
  by (simp_all add: polls_def prim_defs proj_append Let_def)

lemma poll_step_neutral:
  "reinit_count [e] = 0 \<Longrightarrow> msleep_count [e] = 0 \<Longrightarrow>
     fst (poll_step a e) = fst a \<and> snd (snd (poll_step a e)) = snd (snd a)"
proof (cases e)
  case (Printk rep)
  assume "reinit_count [e] = 0"
  with Printk show ?thesis
    by (cases rep) (simp_all add: poll_step_def split_def)
qed (simp_all add: poll_step_def split_def)

lemma foldl_poll_step_neutral:
  "reinit_count es = 0 \<Longrightarrow> msleep_count es = 0 \<Longrightarrow>
     fst (foldl poll_step a es) = fst a \<and> snd (snd (foldl poll_step a es)) = snd (snd a)"
proof (induction es arbitrary: a)
  case Nil
  show ?case by simp
next
  case (Cons e es)
  have r: "reinit_count (e # es) = reinit_count [e] + reinit_count es"
    using reinit_count_append [of "[e]" es] by simp
  have m: "msleep_count (e # es) = msleep_count [e] + msleep_count es"
    using msleep_count_append [of "[e]" es] by simp
  from Cons.prems r m have z: "reinit_count [e] = 0" "msleep_count [e] = 0"
    "reinit_count es = 0" "msleep_count es = 0" by simp_all
  show ?case
    using Cons.IH [OF z(3,4), of "poll_step a e"] poll_step_neutral [OF z(1,2), of a] by simp
qed

lemma marks_append_neutral:
  "reinit_count es = 0 \<Longrightarrow> msleep_count es = 0 \<Longrightarrow>
     marks (s\<lparr>trace := trace s @ es\<rparr>) = marks s"
  using foldl_poll_step_neutral [of es "foldl poll_step ([], False, 0) (trace s)"]
  by (simp add: marks_def poll_windows_def pending_polls_def proj_append)

lemma marks_prims:
  "reinit_count [e] = 0 \<Longrightarrow> msleep_count [e] = 0 \<Longrightarrow> marks (emit e s) = marks s"
  "reinit_count es = 0 \<Longrightarrow> msleep_count es = 0 \<Longrightarrow> marks (emits es s) = marks s"
  "reinit_count [Printk r] = 0 \<Longrightarrow> marks (printk r s) = marks s"
  "marks (snd (read_status h s)) = marks s"
  "marks (snd (read_config s)) = marks s"
  "marks (snd (read_masteraddr s)) = marks s"
  "marks (write_config v s) = marks s"
  "marks (snd (gpio_get_value h l s)) = marks s"
proof -
  have n: "marks (s\<lparr>n_status := a\<rparr>) = marks s" "marks (s\<lparr>n_gpio := a\<rparr>) = marks s"
    "marks (s\<lparr>config := c\<rparr>) = marks s" for s a c
    by (simp_all add: marks_def)
  show "reinit_count [e] = 0 \<Longrightarrow> msleep_count [e] = 0 \<Longrightarrow> marks (emit e s) = marks s"
    using marks_append_neutral [of "[e]" s] by (simp add: emit_def)
  show "reinit_count es = 0 \<Longrightarrow> msleep_count es = 0 \<Longrightarrow> marks (emits es s) = marks s"
    using marks_append_neutral [of es s] by (simp add: emits_def)
  show "reinit_count [Printk r] = 0 \<Longrightarrow> marks (printk r s) = marks s"
    using marks_append_neutral [of "[Printk r]" s] by (simp add: printk_def emit_def)
  show "marks (snd (read_status h s)) = marks s"
    using marks_append_neutral [of "[RegRead I2C_STATUS (hw_status h (n_status s))]"
            "s\<lparr>n_status := Suc (n_status s)\<rparr>"]
    by (simp add: read_status_def emit_def Let_def n)
  show "marks (snd (read_config s)) = marks s"
    using marks_append_neutral [of "[RegRead I2C_CONFIG (config s)]" s]
    by (simp add: read_config_def emit_def)
  show "marks (snd (read_masteraddr s)) = marks s"
    using marks_append_neutral [of "[RegRead I2C_MASTERADDR (masteraddr s)]" s]
    by (simp add: read_masteraddr_def emit_def)
  show "marks (write_config v s) = marks s"
    using marks_append_neutral [of "[RegWrite I2C_CONFIG v]" "s\<lparr>config := v\<rparr>"]
    by (simp add: write_config_def emit_def n)
  show "marks (snd (gpio_get_value h l s)) = marks s"
    using marks_append_neutral [of "[GpioGet l (hw_gpio h (n_gpio s))]"
            "s\<lparr>n_gpio := Suc (n_gpio s)\<rparr>"]
    by (simp add: gpio_get_value_def emit_def Let_def n)
qed

lemma resets_prims:
  "bus_resets [e] = 0 \<Longrightarrow> bus_resets (trace (emit e s)) = bus_resets (trace s)"
  "bus_resets es = 0 \<Longrightarrow> bus_resets (trace (emits es s)) = bus_resets (trace s)"
  "bus_resets [Printk r] = 0 \<Longrightarrow> bus_resets (trace (printk r s)) = bus_resets (trace s)"
  "bus_resets (trace (snd (read_status h s))) = bus_resets (trace s)"
  "bus_resets (trace (snd (read_config s))) = bus_resets (trace s)"
  "bus_resets (trace (snd (read_masteraddr s))) = bus_resets (trace s)"
  "bus_resets (trace (write_config v s)) = bus_resets (trace s)"
  "bus_resets (trace (snd (gpio_get_value h l s))) = bus_resets (trace s)"
  by (simp_all add: prim_defs proj_append Let_def)

lemma set_clock_core: "core (snd (ns9xxx_i2c_set_clock h f s)) = core s"
  by (simp add: ns9xxx_i2c_set_clock_def Let_def split_def core_prims)

lemma set_clock_polls: "polls (snd (ns9xxx_i2c_set_clock h f s)) = polls s"
  by (simp add: ns9xxx_i2c_set_clock_def Let_def split_def polls_prims)

lemma set_clock_marks: "marks (snd (ns9xxx_i2c_set_clock h f s)) = marks s"
  by (simp add: ns9xxx_i2c_set_clock_def Let_def split_def marks_prims)

lemma set_clock_resets:
  "bus_resets (trace (snd (ns9xxx_i2c_set_clock h f s))) = bus_resets (trace s)"
  by (simp add: ns9xxx_i2c_set_clock_def Let_def split_def resets_prims)

lemma reset_clock_cycle_core:
  "core (snd (snd (reset_clock_cycle h i acc))) = core (snd (snd acc))"
  by (simp add: reset_clock_cycle_def Let_def split_def core_prims
        if_distrib [of core] if_distrib [of snd])

lemma reset_clock_cycle_polls:
  "polls (snd (snd (reset_clock_cycle h i acc))) = polls (snd (snd acc))"
  by (simp add: reset_clock_cycle_def Let_def split_def polls_prims
        if_distrib [of polls] if_distrib [of snd])

lemma reset_clock_cycle_marks:
  "marks (snd (snd (reset_clock_cycle h i acc))) = marks (snd (snd acc))"
  by (simp add: reset_clock_cycle_def Let_def split_def marks_prims
        if_distrib [of marks] if_distrib [of snd])

lemma reset_clock_cycle_resets:
  "bus_resets (trace (snd (snd (reset_clock_cycle h i acc)))) = bus_resets (trace (snd (snd acc)))"
  by (simp add: reset_clock_cycle_def Let_def split_def resets_prims
        if_distrib [of "\<lambda>s. bus_resets (trace s)"] if_distrib [of snd])

lemma fold_reset_core:
  "core (snd (snd (fold (reset_clock_cycle h) xs acc))) = core (snd (snd acc))"
  by (induction xs arbitrary: acc) (simp_all add: reset_clock_cycle_core)

lemma fold_reset_polls:
  "polls (snd (snd (fold (reset_clock_cycle h) xs acc))) = polls (snd (snd acc))"
  by (induction xs arbitrary: acc) (simp_all add: reset_clock_cycle_polls)

lemma fold_reset_marks:
  "marks (snd (snd (fold (reset_clock_cycle h) xs acc))) = marks (snd (snd acc))"
  by (induction xs arbitrary: acc) (simp_all add: reset_clock_cycle_marks)

lemma fold_reset_resets:
  "bus_resets (trace (snd (snd (fold (reset_clock_cycle h) xs acc)))) =
     bus_resets (trace (snd (snd acc)))"
  by (induction xs arbitrary: acc) (simp_all add: reset_clock_cycle_resets)

lemma reset_bitbang_core: "core (ns9xxx_i2c_reset_bitbang h s) = core s"
  by (simp add: ns9xxx_i2c_reset_bitbang_def Let_def split_def core_prims fold_reset_core
        if_distrib [of core])

lemma reset_bitbang_polls: "polls (ns9xxx_i2c_reset_bitbang h s) = polls s"
  by (simp add: ns9xxx_i2c_reset_bitbang_def Let_def split_def polls_prims fold_reset_polls
        if_distrib [of polls])

lemma reset_bitbang_marks: "marks (ns9xxx_i2c_reset_bitbang h s) = marks s"
  by (simp add: ns9xxx_i2c_reset_bitbang_def Let_def split_def marks_prims fold_reset_marks
        if_distrib [of marks])

text \<open>One run of the GPIO bus reset prints one register dump.\<close>

lemma reset_bitbang_resets:
  "bus_resets (trace (ns9xxx_i2c_reset_bitbang h s)) = Suc (bus_resets (trace s))"
proof -
  have d: "bus_resets (trace (printk (RegisterDump a b c d) x)) = Suc (bus_resets (trace x))"
    for a b c d x
    by (simp add: prim_defs proj_append)
  show ?thesis
    by (simp add: ns9xxx_i2c_reset_bitbang_def Let_def split_def resets_prims fold_reset_resets
          d if_distrib [of "\<lambda>s. bus_resets (trace s)"])
qed

lemma reinit_core: "core (ns9xxx_reinit_i2c h s) = core s"
  by (simp add: ns9xxx_reinit_i2c_def Let_def split_def core_prims reset_bitbang_core
        set_clock_core if_distrib [of core] if_distrib [of snd])

lemma reinit_polls: "polls (ns9xxx_reinit_i2c h s) = polls s"
  by (simp add: ns9xxx_reinit_i2c_def Let_def split_def polls_prims reset_bitbang_polls
        set_clock_polls if_distrib [of polls] if_distrib [of snd])

text \<open>One call of the reinitialisation runs the GPIO bus reset once.\<close>

lemma reinit_resets:
  "bus_resets (trace (ns9xxx_reinit_i2c h s)) = Suc (bus_resets (trace s))"
  by (simp add: ns9xxx_reinit_i2c_def Let_def split_def resets_prims reset_bitbang_resets
        set_clock_resets if_distrib [of "\<lambda>s. bus_resets (trace s)"] if_distrib [of snd])

text \<open>
  One call of the reinitialisation counts as one, closes the polling window that came
  before it, and leaves no pass pending.
\<close>

lemma marks_report:
  "rep = StillLocked v \<or> rep = ReinitIdle v \<Longrightarrow>
     marks (printk rep s) =
       (Suc (reinit_count (trace s)), poll_windows (trace s) @ [pending_polls (trace s)], 0)"
  by (auto simp: marks_def poll_windows_def pending_polls_def prim_defs proj_append
        poll_step_def split_def)

lemma reinit_marks:
  "marks (ns9xxx_reinit_i2c h s) =
     (Suc (reinit_count (trace s)), poll_windows (trace s) @ [pending_polls (trace s)], 0)"
proof -
  let ?s2 = "snd (read_status h (ns9xxx_i2c_reset_bitbang h s))"
  let ?v = "fst (read_status h (ns9xxx_i2c_reset_bitbang h s))"
  have m2: "marks ?s2 = marks s"
    by (simp add: marks_prims reset_bitbang_marks)
  then have f: "reinit_count (trace ?s2) = reinit_count (trace s)"
    "poll_windows (trace ?s2) = poll_windows (trace s)"
    "pending_polls (trace ?s2) = pending_polls (trace s)"
    by (simp_all add: marks_def)
  have l: "marks (printk (StillLocked ?v) ?s2) =
       (Suc (reinit_count (trace s)), poll_windows (trace s) @ [pending_polls (trace s)], 0)"
    using marks_report [of "StillLocked ?v" ?v ?s2] by (simp add: f)
  have i: "marks (printk (ReinitIdle ?v) ?s2) =
       (Suc (reinit_count (trace s)), poll_windows (trace s) @ [pending_polls (trace s)], 0)"
    using marks_report [of "ReinitIdle ?v" ?v ?s2] by (simp add: f)
  show ?thesis
    by (simp add: ns9xxx_reinit_i2c_def Let_def split_def marks_prims set_clock_marks
          l i if_distrib [of marks] if_distrib [of snd])
qed

lemma poll_window_core: "core (snd (poll_window h n s)) = core s"
  by (induction n arbitrary: s) (simp_all add: Let_def split_def core_prims)

lemma busy_attempts_core: "core (snd (busy_attempts h i s)) = core s"
proof (induction h i s rule: busy_attempts.induct)
  case (1 h i s)
  show ?case
    using "1.IH" poll_window_core [of h "hw_window h" s]
    by (subst busy_attempts.simps)
       (auto simp: core_prims reinit_core split: prod.splits bool.splits)
qed

lemma wait_while_busy_core: "core (snd (ns9xxx_wait_while_busy h s)) = core s"
  by (simp add: ns9xxx_wait_while_busy_def Let_def split_def busy_attempts_core core_prims)

lemma core_fields:
  "core s' = core s \<Longrightarrow> buf s' = buf s"
  "core s' = core s \<Longrightarrow> mem s' = mem s"
  "core s' = core s \<Longrightarrow> state s' = state s"
  "core s' = core s \<Longrightarrow> n_wait s' = n_wait s"
  "core s' = core s \<Longrightarrow> cmd_writes (trace s') = cmd_writes (trace s)"
  "core s' = core s \<Longrightarrow> retry_count (trace s') = retry_count (trace s)"
  by (simp_all add: core_def)


lemma poll_window_counts:
  "attempt_reports (trace (snd (poll_window h n s))) = attempt_reports (trace s) \<and>
   (if fst (poll_window h n s)
    then msleep_count (trace s) \<le> msleep_count (trace (snd (poll_window h n s)))
    else msleep_count (trace (snd (poll_window h n s))) = msleep_count (trace s) + n)"
proof (induction n arbitrary: s)
  case 0
  show ?case by simp
next
  case (Suc n)
  let ?s1 = "emit (Msleep 1) (snd (read_status h s))"
  have r: "attempt_reports (trace ?s1) = attempt_reports (trace s)"
    and m: "msleep_count (trace ?s1) = Suc (msleep_count (trace s))"
    by (simp_all add: prim_defs proj_append Let_def)
  show ?case
  proof (cases "fst (read_status h s) AND I2C_STATUS_MCMDL = 0")
    case True
    then show ?thesis
      by (simp add: Let_def split_def prim_defs proj_append)
  next
    case False
    then have e: "poll_window h (Suc n) s = poll_window h n ?s1"
      by (simp add: Let_def split_def)
    show ?thesis
      unfolding e using Suc.IH [of ?s1] r m by (simp split: if_splits)
  qed
qed

text \<open>
  A window that expires has made all its passes with the lock bit set; no window
  reinitialises or resets anything.
\<close>

lemma poll_window_marks:
  "reinit_count (trace (snd (poll_window h n s))) = reinit_count (trace s) \<and>
   bus_resets (trace (snd (poll_window h n s))) = bus_resets (trace s) \<and>
   poll_windows (trace (snd (poll_window h n s))) = poll_windows (trace s) \<and>
   (\<not> fst (poll_window h n s) \<longrightarrow>
      pending_polls (trace (snd (poll_window h n s))) = pending_polls (trace s) + n)"
proof (induction n arbitrary: s)
  case 0
  show ?case by simp
next
  case (Suc n)
  let ?v = "fst (read_status h s)"
  let ?s1 = "emit (Msleep 1) (snd (read_status h s))"
  show ?case
  proof (cases "?v AND I2C_STATUS_MCMDL = 0")
    case True
    then show ?thesis
      by (simp add: Let_def split_def prim_defs proj_append poll_windows_def poll_step_def)
  next
    case False
    then have e: "poll_window h (Suc n) s = poll_window h n ?s1"
      by (simp add: Let_def split_def)
    have r: "reinit_count (trace ?s1) = reinit_count (trace s)"
      and b: "bus_resets (trace ?s1) = bus_resets (trace s)"
      by (simp_all add: prim_defs proj_append Let_def)
    have w: "poll_windows (trace ?s1) = poll_windows (trace s)"
      and p: "pending_polls (trace ?s1) = Suc (pending_polls (trace s))"
      using False
      by (simp_all add: prim_defs Let_def poll_windows_def pending_polls_def poll_step_def
            split_def)
    show ?thesis
      unfolding e using Suc.IH [of ?s1] r b w p by simp
  qed
qed

lemma reinit_counts:
  "attempt_reports (trace (ns9xxx_reinit_i2c h s)) = attempt_reports (trace s)"
  "msleep_count (trace (ns9xxx_reinit_i2c h s)) = msleep_count (trace s)"
  using reinit_polls [of h s] by (simp_all add: polls_def)

lemma replicate_case:
  "(case k of 0 \<Rightarrow> [] | Suc j \<Rightarrow> (0 + w) # replicate j w) = replicate k (w :: nat)"
  by (cases k) simp_all

lemma busy_attempts_counts:
  "i \<le> BUSY_RELEASE_ATTEMPTS \<Longrightarrow>
   \<exists>k. k \<le> BUSY_RELEASE_ATTEMPTS - i \<and>
       reinit_count (trace (snd (busy_attempts h i s))) = reinit_count (trace s) + k \<and>
       bus_resets (trace (snd (busy_attempts h i s))) = bus_resets (trace s) + k \<and>
       attempt_reports (trace (snd (busy_attempts h i s))) = attempt_reports (trace s) + k \<and>
       poll_windows (trace (snd (busy_attempts h i s))) =
         poll_windows (trace s) @
         (case k of 0 \<Rightarrow> []
          | Suc j \<Rightarrow> (pending_polls (trace s) + hw_window h) # replicate j (hw_window h)) \<and>
       msleep_count (trace s) + hw_window h * k \<le> msleep_count (trace (snd (busy_attempts h i s))) \<and>
       (fst (busy_attempts h i s) = Some ETIMEDOUT \<longleftrightarrow> k = BUSY_RELEASE_ATTEMPTS - i) \<and>
       (fst (busy_attempts h i s) = None \<or> fst (busy_attempts h i s) = Some ETIMEDOUT)"
proof (induction h i s rule: busy_attempts.induct)
  case (1 h i s)
  show ?case
  proof (cases "i < BUSY_RELEASE_ATTEMPTS")
    case False
    with "1.prems" have "i = BUSY_RELEASE_ATTEMPTS" by simp
    then have e: "busy_attempts h i s = (Some ETIMEDOUT, printk (GivingUp BUSY_RELEASE_ATTEMPTS) s)"
      by (subst busy_attempts.simps) simp
    have "marks (printk (GivingUp BUSY_RELEASE_ATTEMPTS) s) = marks s"
      by (simp add: marks_prims)
    then show ?thesis
      unfolding e using \<open>i = BUSY_RELEASE_ATTEMPTS\<close>
      by (intro exI [of _ 0]) (simp add: marks_def prim_defs proj_append)
  next
    case True
    obtain b s1 where p: "poll_window h (hw_window h) s = (b, s1)"
      by (cases "poll_window h (hw_window h) s") auto
    note c = poll_window_counts [of h "hw_window h" s, unfolded p, simplified]
    note d = poll_window_marks [of h "hw_window h" s, unfolded p, simplified]
    show ?thesis
    proof (cases b)
      case True
      have e: "busy_attempts h i s = (None, s1)"
        using \<open>i < BUSY_RELEASE_ATTEMPTS\<close> p True by (subst busy_attempts.simps) simp
      show ?thesis
        using c d True \<open>i < BUSY_RELEASE_ATTEMPTS\<close> by (intro exI [of _ 0]) (simp add: e)
    next
      case False
      let ?s1' = "printk (BusyTimedOut (i + 1)) s1"
      let ?s2 = "ns9xxx_reinit_i2c h ?s1'"
      have e: "busy_attempts h i s = busy_attempts h (i + 1) ?s2"
        using \<open>i < BUSY_RELEASE_ATTEMPTS\<close> p False by (subst busy_attempts.simps) simp
      have a2: "attempt_reports (trace ?s2) = attempt_reports (trace s) + 1"
        and m2: "msleep_count (trace ?s2) = msleep_count (trace s) + hw_window h"
        using c False by (simp_all add: reinit_counts prim_defs proj_append)
      have b2: "bus_resets (trace ?s2) = bus_resets (trace s) + 1"
        using d by (simp add: reinit_resets prim_defs proj_append)
      have "marks ?s1' = marks s1"
        by (simp add: marks_prims)
      then have f: "reinit_count (trace ?s1') = reinit_count (trace s)"
        "poll_windows (trace ?s1') = poll_windows (trace s)"
        "pending_polls (trace ?s1') = pending_polls (trace s) + hw_window h"
        using d False by (simp_all add: marks_def)
      have "marks ?s2 = (Suc (reinit_count (trace s)),
                   poll_windows (trace s) @ [pending_polls (trace s) + hw_window h], 0)"
        unfolding reinit_marks f ..
      then have r2: "reinit_count (trace ?s2) = reinit_count (trace s) + 1"
        and w2: "poll_windows (trace ?s2) =
                   poll_windows (trace s) @ [pending_polls (trace s) + hw_window h]"
        and p2: "pending_polls (trace ?s2) = 0"
        by (simp_all add: marks_def)
      from "1.IH" [OF \<open>i < BUSY_RELEASE_ATTEMPTS\<close> p [symmetric]] False \<open>i < BUSY_RELEASE_ATTEMPTS\<close>
      obtain k where k: "k \<le> BUSY_RELEASE_ATTEMPTS - (i + 1)"
        "reinit_count (trace (snd (busy_attempts h (i + 1) ?s2))) = reinit_count (trace ?s2) + k"
        "bus_resets (trace (snd (busy_attempts h (i + 1) ?s2))) = bus_resets (trace ?s2) + k"
        "attempt_reports (trace (snd (busy_attempts h (i + 1) ?s2))) = attempt_reports (trace ?s2) + k"
        "poll_windows (trace (snd (busy_attempts h (i + 1) ?s2))) =
           poll_windows (trace ?s2) @
           (case k of 0 \<Rightarrow> []
            | Suc j \<Rightarrow> (pending_polls (trace ?s2) + hw_window h) # replicate j (hw_window h))"
        "msleep_count (trace ?s2) + hw_window h * k
           \<le> msleep_count (trace (snd (busy_attempts h (i + 1) ?s2)))"
        "fst (busy_attempts h (i + 1) ?s2) = Some ETIMEDOUT \<longleftrightarrow> k = BUSY_RELEASE_ATTEMPTS - (i + 1)"
        "fst (busy_attempts h (i + 1) ?s2) = None \<or> fst (busy_attempts h (i + 1) ?s2) = Some ETIMEDOUT"
        by auto
      have w: "poll_windows (trace (snd (busy_attempts h (i + 1) ?s2))) =
                 poll_windows (trace s) @
                 (pending_polls (trace s) + hw_window h) # replicate k (hw_window h)"
        unfolding k(5) p2 replicate_case w2 by simp
      show ?thesis
        unfolding e
        using k(1,2,3,4,6,7,8) w r2 a2 b2 m2 \<open>i < BUSY_RELEASE_ATTEMPTS\<close>
        by (intro exI [of _ "Suc k"]) auto
    qed
  qed
qed

lemma poll_window_locked:
  "(\<And>n. hw_status h n AND I2C_STATUS_MCMDL \<noteq> 0) \<Longrightarrow> \<not> fst (poll_window h n s)"
  by (induction n arbitrary: s) (simp_all add: Let_def split_def prim_defs)

lemma busy_attempts_locked:
  "(\<And>n. hw_status h n AND I2C_STATUS_MCMDL \<noteq> 0) \<Longrightarrow>
     fst (busy_attempts h i s) = Some ETIMEDOUT"
proof (induction h i s rule: busy_attempts.induct)
  case (1 h i s)
  obtain b s1 where p: "poll_window h (hw_window h) s = (b, s1)"
    by (cases "poll_window h (hw_window h) s") auto
  have nb: "b = False" using poll_window_locked [of h "hw_window h" s] "1.prems" p by simp
  show ?case
  proof (cases "i < BUSY_RELEASE_ATTEMPTS")
    case True
    from "1.IH" [OF True p [symmetric] nb "1.prems"] show ?thesis
      using True p nb by (subst busy_attempts.simps) simp
  next
    case False
    then show ?thesis by (subst busy_attempts.simps) simp
  qed
qed

lemma wait_while_busy_locked:
  "(\<And>n. hw_status h n AND I2C_STATUS_MCMDL \<noteq> 0) \<Longrightarrow>
     fst (ns9xxx_wait_while_busy h s) = Some ETIMEDOUT"
  by (simp add: ns9xxx_wait_while_busy_def Let_def split_def prim_defs busy_attempts_locked)

subsection \<open>Busy recovery\<close>

text \<open>
  Claim C8. If the lock bit reads clear on entry, \<open>ns9xxx_wait_while_busy\<close> succeeds
  after that single status read, with no sleep and no reinitialisation. In every case
  the number \<open>k\<close> of calls of \<open>ns9xxx_reinit_i2c\<close> made by one call is at most 10; it is
  also the number of GPIO bus resets and of attempt reports. Each of these
  reinitialisations comes after a full window of passes of the polling loop that read
  the lock bit set and slept: the list of the passes before each reinitialisation
  grows by \<open>k\<close> entries, all equal to \<open>hw_window\<close> (the first one together with the
  passes that the trace before the call had left pending), so the sleeps number at
  least \<open>hw_window\<close> for each of them. The result is the timeout error exactly when all
  10 reinitialisations have been made, and otherwise it is success.
\<close>

theorem wait_while_busy_bounded:
  "(hw_status h (n_status s) AND I2C_STATUS_MCMDL = 0 \<longrightarrow>
      ns9xxx_wait_while_busy h s =
        (None, s\<lparr>n_status := Suc (n_status s),
                 trace := trace s @ [RegRead I2C_STATUS (hw_status h (n_status s))]\<rparr>))
   \<and> (\<exists>k. k \<le> 10 \<and>
          reinit_count (trace (snd (ns9xxx_wait_while_busy h s))) = reinit_count (trace s) + k \<and>
          bus_resets (trace (snd (ns9xxx_wait_while_busy h s))) = bus_resets (trace s) + k \<and>
          attempt_reports (trace (snd (ns9xxx_wait_while_busy h s)))
            = attempt_reports (trace s) + k \<and>
          poll_windows (trace (snd (ns9xxx_wait_while_busy h s))) =
            poll_windows (trace s) @
            (case k of 0 \<Rightarrow> []
             | Suc j \<Rightarrow> (pending_polls (trace s) + hw_window h) # replicate j (hw_window h)) \<and>
          msleep_count (trace s) + hw_window h * k
            \<le> msleep_count (trace (snd (ns9xxx_wait_while_busy h s))) \<and>
          (fst (ns9xxx_wait_while_busy h s) = Some ETIMEDOUT \<longleftrightarrow> k = 10) \<and>
          (fst (ns9xxx_wait_while_busy h s) = None \<or>
           fst (ns9xxx_wait_while_busy h s) = Some ETIMEDOUT))"
proof (cases "hw_status h (n_status s) AND I2C_STATUS_MCMDL = 0")
  case True
  let ?s1 = "s\<lparr>n_status := Suc (n_status s),
                 trace := trace s @ [RegRead I2C_STATUS (hw_status h (n_status s))]\<rparr>"
  from True have e: "ns9xxx_wait_while_busy h s = (None, ?s1)"
    by (simp add: ns9xxx_wait_while_busy_def prim_defs Let_def)
  have "marks (snd (read_status h s)) = marks s" by (simp add: marks_prims)
  then have "marks ?s1 = marks s" by (simp add: prim_defs Let_def)
  then show ?thesis
    unfolding e by (simp add: proj_append marks_def exI [of _ 0])
next
  case False
  let ?s1 = "snd (read_status h s)"
  have e: "ns9xxx_wait_while_busy h s = busy_attempts h 0 ?s1"
    using False by (simp add: ns9xxx_wait_while_busy_def prim_defs Let_def)
  have c: "attempt_reports (trace ?s1) = attempt_reports (trace s)"
    "msleep_count (trace ?s1) = msleep_count (trace s)"
    "bus_resets (trace ?s1) = bus_resets (trace s)"
    by (simp_all add: prim_defs Let_def proj_append)
  have "marks ?s1 = marks s" by (simp add: marks_prims)
  then have m: "reinit_count (trace ?s1) = reinit_count (trace s)"
    "poll_windows (trace ?s1) = poll_windows (trace s)"
    "pending_polls (trace ?s1) = pending_polls (trace s)"
    by (simp_all add: marks_def)
  note k = busy_attempts_counts [of 0 h ?s1, unfolded c m]
  show ?thesis
    unfolding e using k False
    by (simp add: BUSY_RELEASE_ATTEMPTS_def)
qed

text \<open>
  Claim C8, at concrete inputs: the idle controller, where the call returns after one
  read, and the controller that stays locked with a window of three passes, where ten
  reinitialisations, each after three locked passes, precede the timeout.
\<close>

theorem wait_while_busy_bounded_witness:
  "hw_status (hw_idle (answers [] WTimeout)) (n_status dev0) AND I2C_STATUS_MCMDL = 0 \<and>
   ns9xxx_wait_while_busy (hw_idle (answers [] WTimeout)) dev0 =
     (None, dev0\<lparr>n_status := 1, trace := [RegRead I2C_STATUS 0]\<rparr>) \<and>
   fst (ns9xxx_wait_while_busy hw_locked dev0) = Some ETIMEDOUT \<and>
   reinit_count (trace (snd (ns9xxx_wait_while_busy hw_locked dev0))) = 10 \<and>
   bus_resets (trace (snd (ns9xxx_wait_while_busy hw_locked dev0))) = 10 \<and>
   poll_windows (trace (snd (ns9xxx_wait_while_busy hw_locked dev0))) =
     [3, 3, 3, 3, 3, 3, 3, 3, 3, 3] \<and>
   30 \<le> msleep_count (trace (snd (ns9xxx_wait_while_busy hw_locked dev0)))"
proof -
  have l: "fst (ns9xxx_wait_while_busy hw_locked dev0) = Some ETIMEDOUT"
    by (rule wait_while_busy_locked) (simp add: hw_locked_def I2C_STATUS_MCMDL_def)
  have r: "replicate 9 (3 :: nat) = [3, 3, 3, 3, 3, 3, 3, 3, 3]"
    by (simp add: eval_nat_numeral)
  show ?thesis
    using wait_while_busy_bounded [of "hw_idle (answers [] WTimeout)" dev0]
      wait_while_busy_bounded [of hw_locked dev0] l
    by (auto simp: hw_idle_def hw_locked_def dev0_def const_defs poll_windows_def
          pending_polls_def r)
qed


subsection \<open>Command and wait\<close>

text \<open>
  Claim C6. Let \<open>ns9xxx_i2c_send_cmd\<close> get past its entry check (\<open>pre\<close>, the lock bit
  clear or the busy recovery successful) and let the wait for completion time out;
  \<open>repoll\<close> is the busy recovery called after the timeout. Then the result is the
  timeout error, the command register has been written exactly once during the call,
  with the command itself, and the call ends with the re-poll, followed by the report
  that the bus seems free but the command is not retried exactly when the re-poll
  succeeds. When the lock bit reads clear both on entry and at the re-poll, the whole
  trace of the call is: status read, state := Awaiting, command write, report of the
  interrupt timeout, status read, report that the command is not retried.
\<close>

theorem send_cmd_timeout_not_retried:
  assumes pre: "pre = (if hw_status h (n_status s) AND I2C_STATUS_MCMDL \<noteq> 0
                       then ns9xxx_wait_while_busy h (snd (read_status h s))
                       else (None, snd (read_status h s)))"
    and issued: "fst pre = None"
    and timeout: "hw_wait h (n_wait s) = WTimeout"
    and repoll: "repoll = ns9xxx_wait_while_busy h
                   (printk (IrqTimeout cmd)
                      ((write_cmd cmd (set_state I2C_INT_AWAITING (snd pre)))
                         \<lparr>n_wait := Suc (n_wait s)\<rparr>))"
  shows "fst (ns9xxx_i2c_send_cmd h cmd s) = Some ETIMEDOUT \<and>
     cmd_writes (trace (snd (ns9xxx_i2c_send_cmd h cmd s))) = cmd_writes (trace s) @ [cmd] \<and>
     snd (ns9xxx_i2c_send_cmd h cmd s) =
       (if fst repoll = None then printk FreeNotRetrying (snd repoll) else snd repoll) \<and>
     (hw_status h (n_status s) AND I2C_STATUS_MCMDL = 0 \<and>
      hw_status h (Suc (n_status s)) AND I2C_STATUS_MCMDL = 0 \<longrightarrow>
        trace (snd (ns9xxx_i2c_send_cmd h cmd s)) =
          trace s @ [RegRead I2C_STATUS (hw_status h (n_status s)), StateSet I2C_INT_AWAITING,
                     RegWrite I2C_CMD cmd, Printk (IrqTimeout cmd),
                     RegRead I2C_STATUS (hw_status h (Suc (n_status s))),
                     Printk FreeNotRetrying])"
proof -
  let ?s5 = "printk (IrqTimeout cmd)
               ((write_cmd cmd (set_state I2C_INT_AWAITING (snd pre)))
                  \<lparr>n_wait := Suc (n_wait s)\<rparr>)"
  have cp: "core (snd pre) = core s"
    by (simp add: pre wait_while_busy_core core_prims)
  have nw: "n_wait (snd pre) = n_wait s"
    by (rule core_fields(4) [OF cp])
  have st: "fst (read_status h s) = hw_status h (n_status s)"
    by (simp add: read_status_def Let_def)
  have e: "ns9xxx_i2c_send_cmd h cmd s =
      (Some ETIMEDOUT, if fst repoll = None then printk FreeNotRetrying (snd repoll) else snd repoll)"
    using issued timeout nw
    by (simp add: ns9xxx_i2c_send_cmd_def wait_event_def Let_def split_def st
          pre [symmetric] repoll write_cmd_def set_state_def emit_def)
  have "core (snd repoll) = core ?s5"
    unfolding repoll by (rule wait_while_busy_core)
  then have "cmd_writes (trace (snd repoll)) = cmd_writes (trace ?s5)"
    by (simp add: core_def)
  also have "\<dots> = cmd_writes (trace (snd pre)) @ [cmd]"
    by (simp add: prim_defs proj_append Let_def)
  also have "\<dots> = cmd_writes (trace s) @ [cmd]"
    by (simp add: core_fields(5) [OF cp])
  finally have w: "cmd_writes (trace (snd repoll)) = cmd_writes (trace s) @ [cmd]" .
  have p: "cmd_writes (trace (printk r x)) = cmd_writes (trace x)" for r x
    by (simp add: prim_defs proj_append)
  have c1: "fst (ns9xxx_i2c_send_cmd h cmd s) = Some ETIMEDOUT"
    by (simp add: e)
  have c2: "cmd_writes (trace (snd (ns9xxx_i2c_send_cmd h cmd s))) = cmd_writes (trace s) @ [cmd]"
    by (simp add: e w p)
  have c3: "snd (ns9xxx_i2c_send_cmd h cmd s) =
       (if fst repoll = None then printk FreeNotRetrying (snd repoll) else snd repoll)"
    by (simp add: e)
  have c4: "trace (snd (ns9xxx_i2c_send_cmd h cmd s)) =
          trace s @ [RegRead I2C_STATUS (hw_status h (n_status s)), StateSet I2C_INT_AWAITING,
                     RegWrite I2C_CMD cmd, Printk (IrqTimeout cmd),
                     RegRead I2C_STATUS (hw_status h (Suc (n_status s))),
                     Printk FreeNotRetrying]"
    if free: "hw_status h (n_status s) AND I2C_STATUS_MCMDL = 0"
      and idle: "hw_status h (Suc (n_status s)) AND I2C_STATUS_MCMDL = 0"
  proof -
    have pre': "pre = (None, snd (read_status h s))"
      using free by (simp add: pre)
    have i: "repoll = (None, snd (read_status h ?s5))"
      using idle by (simp add: repoll pre' ns9xxx_wait_while_busy_def prim_defs Let_def)
    show ?thesis
      unfolding e i by (simp add: pre' prim_defs Let_def)
  qed
  from c1 c2 c3 c4 show ?thesis by blast
qed

text \<open>
  Claim C6, at a concrete input: a STOP command on the idle controller whose waits all
  time out.
\<close>

theorem send_cmd_timeout_not_retried_witness:
  "fst (if hw_status (hw_idle (answers [] WTimeout)) (n_status dev0) AND I2C_STATUS_MCMDL \<noteq> 0
        then ns9xxx_wait_while_busy (hw_idle (answers [] WTimeout))
               (snd (read_status (hw_idle (answers [] WTimeout)) dev0))
        else (None, snd (read_status (hw_idle (answers [] WTimeout)) dev0))) = None \<and>
   hw_wait (hw_idle (answers [] WTimeout)) (n_wait dev0) = WTimeout \<and>
   hw_status (hw_idle (answers [] WTimeout)) (n_status dev0) AND I2C_STATUS_MCMDL = 0 \<and>
   hw_status (hw_idle (answers [] WTimeout)) (Suc (n_status dev0)) AND I2C_STATUS_MCMDL = 0 \<and>
   fst (ns9xxx_i2c_send_cmd (hw_idle (answers [] WTimeout)) I2C_CMD_STOP dev0) = Some ETIMEDOUT \<and>
   trace (snd (ns9xxx_i2c_send_cmd (hw_idle (answers [] WTimeout)) I2C_CMD_STOP dev0)) =
     [RegRead I2C_STATUS 0, StateSet I2C_INT_AWAITING, RegWrite I2C_CMD 0x600,
      Printk (IrqTimeout 0x600), RegRead I2C_STATUS 0, Printk FreeNotRetrying]"
  using send_cmd_timeout_not_retried [OF refl _ _ refl, of "hw_idle (answers [] WTimeout)" dev0 I2C_CMD_STOP]
  by (simp add: drv_defs ex_defs prim_defs const_defs Let_def)

subsection \<open>Byte writes\<close>

lemma irq_ok:
  assumes "state (ns9xxx_i2c_irq status s) = I2C_INT_OK" and "state s = I2C_INT_AWAITING"
  shows "cmd_writes (trace (ns9xxx_i2c_irq status s)) = cmd_writes (trace s)"
    and "buf (ns9xxx_i2c_irq status s) = buf s"
    and "buf s \<noteq> Some a \<Longrightarrow> mem (ns9xxx_i2c_irq status s) a = mem s a"
  using assms
  by (auto simp: ns9xxx_i2c_irq_def Let_def prim_defs proj_append split: if_splits option.splits)

lemma send_cmd_ok:
  assumes ok: "ns9xxx_i2c_send_cmd h cmd s = (None, s')"
  shows "cmd_writes (trace s') = cmd_writes (trace s) @ [cmd]"
    and "buf s' = buf s"
    and "buf s \<noteq> Some a \<Longrightarrow> mem s' a = mem s a"
proof -
  define S2 where "S2 = snd (if fst (read_status h s) AND I2C_STATUS_MCMDL \<noteq> 0
                             then ns9xxx_wait_while_busy h (snd (read_status h s))
                             else (None, snd (read_status h s)))"
  define S3 where "S3 = (write_cmd cmd (set_state I2C_INT_AWAITING S2))\<lparr>n_wait := Suc (n_wait S2)\<rparr>"
  have c2: "core S2 = core s"
    by (simp add: S2_def wait_while_busy_core core_prims)
  have c3: "cmd_writes (trace S3) = cmd_writes (trace s) @ [cmd]" "buf S3 = buf s"
    "mem S3 = mem s" "state S3 = I2C_INT_AWAITING"
    using core_fields [OF c2] by (simp_all add: S3_def prim_defs proj_append)
  from ok obtain status where s': "s' = ns9xxx_i2c_irq status S3" and st: "state s' = I2C_INT_OK"
    by (auto simp: ns9xxx_i2c_send_cmd_def wait_event_def Let_def split_def S2_def S3_def
          prim_defs
        split: if_splits wait_outcome.splits)
  show "cmd_writes (trace s') = cmd_writes (trace s) @ [cmd]"
    using irq_ok(1) [of status S3] st c3 by (simp add: s')
  show "buf s' = buf s"
    using irq_ok(2) [of status S3] st c3 by (simp add: s')
  show "mem s' a = mem s a" if "buf s \<noteq> Some a"
    using irq_ok(3) [of status S3 a] st c3 that by (simp add: s')
qed


lemma write_success_commands:
  "ns9xxx_i2c_write h p count s = (None, s') \<Longrightarrow> (\<And>q. buf s = Some q \<Longrightarrow> q \<le> p) \<Longrightarrow>
     cmd_writes (trace s') =
       cmd_writes (trace s) @
       map (\<lambda>a. I2C_CMD_NOP OR I2C_CMD_TXVAL OR ucast (mem s a)) [p..<p + count]"
proof (induction count arbitrary: p s)
  case 0
  then show ?case by simp
next
  case (Suc n)
  let ?cmd = "I2C_CMD_NOP OR I2C_CMD_TXVAL OR ucast (mem s p)"
  obtain r s1 where c: "ns9xxx_i2c_send_cmd h ?cmd s = (r, s1)"
    by (cases "ns9xxx_i2c_send_cmd h ?cmd s") auto
  with Suc.prems(1) have r: "r = None" and rest: "ns9xxx_i2c_write h (Suc p) n s1 = (None, s')"
    by (auto split: if_splits)
  note ok = send_cmd_ok [OF c [unfolded r]]
  have far: "mem s1 a = mem s a" if "p < a" for a
  proof -
    have "buf s \<noteq> Some a" using Suc.prems(2) [of a] that by auto
    then show ?thesis by (rule ok(3))
  qed
  have "cmd_writes (trace s') =
          cmd_writes (trace s1) @
          map (\<lambda>a. I2C_CMD_NOP OR I2C_CMD_TXVAL OR ucast (mem s1 a)) [Suc p..<Suc p + n]"
  proof (rule Suc.IH [OF rest])
    fix q assume "buf s1 = Some q"
    then show "q \<le> Suc p" using Suc.prems(2) [of q] ok(2) by simp
  qed
  also have "map (\<lambda>a. I2C_CMD_NOP OR I2C_CMD_TXVAL OR ucast (mem s1 a)) [Suc p..<Suc p + n] =
             map (\<lambda>a. I2C_CMD_NOP OR I2C_CMD_TXVAL OR ucast (mem s a)) [Suc p..<Suc p + n]"
  proof (rule map_cong [OF refl])
    fix a assume "a \<in> set [Suc p..<Suc p + n]"
    then have "p < a" by auto
    then show "I2C_CMD_NOP OR I2C_CMD_TXVAL OR ucast (mem s1 a) =
               I2C_CMD_NOP OR I2C_CMD_TXVAL OR ucast (mem s a)"
      by (simp add: far)
  qed
  finally have step: "cmd_writes (trace s') =
          cmd_writes (trace s1) @
          map (\<lambda>a. I2C_CMD_NOP OR I2C_CMD_TXVAL OR ucast (mem s a)) [Suc p..<Suc p + n]" .
  have u: "[p..<p + Suc n] = p # [Suc p..<Suc p + n]"
    by (subst upt_rec) simp
  show ?case
    unfolding u using step by (simp add: ok(1))
qed

lemma write_stops_at_failure:
  "k < count \<Longrightarrow> ns9xxx_i2c_write h p k s = (None, sk) \<Longrightarrow>
   ns9xxx_i2c_send_cmd h (I2C_CMD_NOP OR I2C_CMD_TXVAL OR ucast (mem sk (p + k))) sk = (Some e, sf) \<Longrightarrow>
   ns9xxx_i2c_write h p count s = (Some e, sf)"
proof (induction k arbitrary: p s count)
  case 0
  then obtain n where "count = Suc n" by (cases count) auto
  with 0 show ?case by simp
next
  case (Suc k)
  then obtain n where n: "count = Suc n" "k < n" by (cases count) auto
  let ?cmd = "I2C_CMD_NOP OR I2C_CMD_TXVAL OR ucast (mem s p)"
  obtain r s1 where c: "ns9xxx_i2c_send_cmd h ?cmd s = (r, s1)"
    by (cases "ns9xxx_i2c_send_cmd h ?cmd s") auto
  with Suc.prems(2) have r: "r = None" and rest: "ns9xxx_i2c_write h (Suc p) k s1 = (None, sk)"
    by (auto split: if_splits)
  have "ns9xxx_i2c_write h (Suc p) n s1 = (Some e, sf)"
    using Suc.IH [OF n(2) rest] Suc.prems(3) by simp
  then show ?case by (simp add: n c r)
qed

text \<open>
  Claim C2 as stated fails: the word of a byte write carries the NOP command code, not
  the WRITE code. For the byte \<open>0x41\<close> the driver writes \<open>0x2041\<close> to the command
  register, while WRITE, transmit-valid and the byte make \<open>0x2541\<close>.
\<close>

theorem write_word_counterexample:
  "cmd_writes (trace (snd (ns9xxx_i2c_write (hw_idle (answers [] (WIrq 0x300))) 100 (Suc 0)
                             dev_mem))) = [0x2041] \<and>
   (I2C_CMD_WRITE OR I2C_CMD_TXVAL OR 0x41) = (0x2541 :: u32)"
  by (simp add: drv_defs ex_defs prim_defs const_defs Let_def)

text \<open>
  Claim C2, amended. The word issued for a byte is NOP, transmit-valid and the byte.
  When \<open>ns9xxx_i2c_write\<close> succeeds on \<open>count\<close> bytes at \<open>p\<close> (the receive cursor not
  pointing beyond \<open>p\<close>), the command register has been written exactly once per byte,
  in order, with these words. When the first \<open>k\<close> bytes succeed and the command for
  the next byte fails, the call for any larger count ends in the state and with the
  error of that failed command: nothing is issued after the first failure.
\<close>

theorem write_issues_nop_txval_bytes:
  "(ns9xxx_i2c_write h p count s = (None, s') \<and> (\<forall>q. buf s = Some q \<longrightarrow> q \<le> p) \<longrightarrow>
      cmd_writes (trace s') =
        cmd_writes (trace s) @
        map (\<lambda>a. I2C_CMD_NOP OR I2C_CMD_TXVAL OR ucast (mem s a)) [p..<p + count])
   \<and> (k < count \<and> ns9xxx_i2c_write h p k s = (None, sk) \<and>
       ns9xxx_i2c_send_cmd h (I2C_CMD_NOP OR I2C_CMD_TXVAL OR ucast (mem sk (p + k))) sk
         = (Some e, sf) \<longrightarrow>
       ns9xxx_i2c_write h p count s = (Some e, sf))"
  using write_success_commands [of h p count s s'] write_stops_at_failure [of k count h p s sk e sf]
  by blast

text \<open>
  Claim C2, amended, at concrete inputs: two bytes that are both accepted, and two bytes
  of which the second is answered with no-acknowledge.
\<close>

theorem write_issues_nop_txval_bytes_witness:
  "fst (ns9xxx_i2c_write (hw_idle (answers [] (WIrq 0x300))) 100 (Suc (Suc 0)) dev_mem) = None \<and>
   cmd_writes (trace (snd (ns9xxx_i2c_write (hw_idle (answers [] (WIrq 0x300))) 100
                             (Suc (Suc 0)) dev_mem))) = [0x2041, 0x2042] \<and>
   fst (ns9xxx_i2c_write (hw_idle (answers [WIrq 0x300] (WIrq 0x200))) 100 (Suc (Suc 0)) dev_mem)
     = Some EIO \<and>
   cmd_writes (trace (snd (ns9xxx_i2c_write (hw_idle (answers [WIrq 0x300] (WIrq 0x200))) 100
                             (Suc (Suc 0)) dev_mem))) = [0x2041, 0x2042, 0x600]"
  using write_issues_nop_txval_bytes
          [where h = "hw_idle (answers [] (WIrq 0x300))" and p = 100 and count = "Suc (Suc 0)"
             and s = dev_mem
             and s' = "snd (ns9xxx_i2c_write (hw_idle (answers [] (WIrq 0x300))) 100
                             (Suc (Suc 0)) dev_mem)"
             and k = 0 and sk = dev_mem and e = EIO and sf = dev_mem]
        write_issues_nop_txval_bytes
          [where h = "hw_idle (answers [WIrq 0x300] (WIrq 0x200))" and p = 100
             and count = "Suc (Suc 0)" and s = dev_mem and s' = dev_mem and k = "Suc 0"
             and sk = "snd (ns9xxx_i2c_write (hw_idle (answers [WIrq 0x300] (WIrq 0x200))) 100
                             (Suc 0) dev_mem)"
             and e = EIO
             and sf = "snd (ns9xxx_i2c_send_cmd (hw_idle (answers [WIrq 0x300] (WIrq 0x200)))
                             (I2C_CMD_NOP OR I2C_CMD_TXVAL OR 0x42)
                             (snd (ns9xxx_i2c_write (hw_idle (answers [WIrq 0x300] (WIrq 0x200)))
                                     100 (Suc 0) dev_mem)))"]
  by (simp add: drv_defs ex_defs prim_defs const_defs Let_def)


subsection \<open>The retry budget of a transfer\<close>























subsection \<open>Runs of the transfer entry point\<close>

text \<open>
  Claim C1, on the code: two one-byte writes, to the addresses \<open>0x10\<close> and \<open>0x20\<close>,
  where the addressing command of the first loses arbitration and every later command is
  acknowledged. After the STOP of the retry handling the loop goes on with the second
  message: the master address register is written with \<open>0x20\<close> (first message) and
  then \<open>0x40\<close> (second message), the first message is never addressed again, and the
  transfer reports two messages done.
\<close>

theorem xfer_retry_resumes_at_second_message:
  "fst (ns9xxx_i2c_xfer (hw_idle (answers [WIrq 0x100] (WIrq 0x500)))
          [write1 0x10 100, write1 0x20 101] dev_mem) = Inr 2 \<and>
   masteraddr_writes (trace (snd (ns9xxx_i2c_xfer (hw_idle (answers [WIrq 0x100] (WIrq 0x500)))
          [write1 0x10 100, write1 0x20 101] dev_mem))) = [0x20, 0x40] \<and>
   cmd_writes (trace (snd (ns9xxx_i2c_xfer (hw_idle (answers [WIrq 0x100] (WIrq 0x500)))
          [write1 0x10 100, write1 0x20 101] dev_mem))) = [0x2541, 0x600, 0x2542, 0x600]"
  by (simp add: drv_defs xfer_loop.simps ex_defs prim_defs const_defs Let_def)

lemma bitbang_bits_n_gpio:
  "n_gpio (fold (bitbang_bit nr_bits addr) xs s) = n_gpio s"
  by (induction xs arbitrary: s) (simp_all add: bitbang_bit_def prim_defs)

text \<open>
  Claim C4, on the code. For every message and device the probe returns success when
  the data line is sampled high at the acknowledge bit and -ENODEV when it is sampled
  low. For a single zero-length message the probe runs instead of the register
  protocol (the only command written is the final STOP): with the line sampled low
  the transfer returns -ENODEV, with the line sampled high it returns the count 1.
\<close>

theorem xfer_probe_ack_low_fails:
  "fst (ns9xxx_i2c_bitbang h m s) = (if hw_gpio h (n_gpio s) then None else Some ENODEV) \<and>
   fst (ns9xxx_i2c_xfer hw_sda_low [probe 0x50] dev0) = Inl ENODEV \<and>
   cmd_writes (trace (snd (ns9xxx_i2c_xfer hw_sda_low [probe 0x50] dev0))) = [0x600] \<and>
   fst (ns9xxx_i2c_xfer (hw_idle (answers [] (WIrq 0x500))) [probe 0x50] dev0) = Inr 1"
proof -
  have g: "fst (ns9xxx_i2c_bitbang h m s) = (if hw_gpio h (n_gpio s) then None else Some ENODEV)"
    by (simp add: ns9xxx_i2c_bitbang_def Let_def split_def bitbang_bits_n_gpio prim_defs)
  have c: "fst (ns9xxx_i2c_xfer hw_sda_low [probe 0x50] dev0) = Inl ENODEV \<and>
     cmd_writes (trace (snd (ns9xxx_i2c_xfer hw_sda_low [probe 0x50] dev0))) = [0x600] \<and>
     fst (ns9xxx_i2c_xfer (hw_idle (answers [] (WIrq 0x500))) [probe 0x50] dev0) = Inr 1"
    by (simp add: drv_defs xfer_loop.simps ex_defs prim_defs const_defs Let_def
          ns9xxx_i2c_bitbang_def bitbang_bit_def upt_rec)
  from g c show ?thesis by blast
qed

text \<open>
  Claim C9, on the code. When the message loop is left at its end, the cursor is NULL
  when the transfer returns; when it is left by the return inside it, the transfer
  returns at once, in the state the loop left. So for two one-byte writes where the
  addressing command of the first loses arbitration and the STOP of the retry handling
  times out, the transfer returns -EIO with the cursor still pointing at the first
  buffer, the failed STOP is the last command written (no NOP, no second STOP) and
  the GPIO bus reset has not run.
\<close>

theorem xfer_early_return_skips_cleanup:
  "(case xfer_loop h msgs 0 10 None (set_state I2C_INT_OK s) of
      LoopReturn e k s' \<Rightarrow> ns9xxx_i2c_xfer h msgs s = (Inl e, s')
    | LoopExit j ret' k s' \<Rightarrow> buf (snd (ns9xxx_i2c_xfer h msgs s)) = None) \<and>
   fst (ns9xxx_i2c_xfer (hw_idle (answers [WIrq 0x100] WTimeout))
          [write1 0x10 100, write1 0x20 101] dev_mem) = Inl EIO \<and>
   buf (snd (ns9xxx_i2c_xfer (hw_idle (answers [WIrq 0x100] WTimeout))
          [write1 0x10 100, write1 0x20 101] dev_mem)) = Some 100 \<and>
   cmd_writes (trace (snd (ns9xxx_i2c_xfer (hw_idle (answers [WIrq 0x100] WTimeout))
          [write1 0x10 100, write1 0x20 101] dev_mem))) = [0x2541, 0x600] \<and>
   bus_resets (trace (snd (ns9xxx_i2c_xfer (hw_idle (answers [WIrq 0x100] WTimeout))
          [write1 0x10 100, write1 0x20 101] dev_mem))) = 0"
proof -
  have g: "case xfer_loop h msgs 0 10 None (set_state I2C_INT_OK s) of
      LoopReturn e k s' \<Rightarrow> ns9xxx_i2c_xfer h msgs s = (Inl e, s')
    | LoopExit j ret' k s' \<Rightarrow> buf (snd (ns9xxx_i2c_xfer h msgs s)) = None"
    by (simp add: ns9xxx_i2c_xfer_def Let_def split_def split: loop_result.splits)
  have c: "fst (ns9xxx_i2c_xfer (hw_idle (answers [WIrq 0x100] WTimeout))
          [write1 0x10 100, write1 0x20 101] dev_mem) = Inl EIO \<and>
   buf (snd (ns9xxx_i2c_xfer (hw_idle (answers [WIrq 0x100] WTimeout))
          [write1 0x10 100, write1 0x20 101] dev_mem)) = Some 100 \<and>
   cmd_writes (trace (snd (ns9xxx_i2c_xfer (hw_idle (answers [WIrq 0x100] WTimeout))
          [write1 0x10 100, write1 0x20 101] dev_mem))) = [0x2541, 0x600] \<and>
   bus_resets (trace (snd (ns9xxx_i2c_xfer (hw_idle (answers [WIrq 0x100] WTimeout))
          [write1 0x10 100, write1 0x20 101] dev_mem))) = 0"
    by (simp add: drv_defs xfer_loop.simps ex_defs prim_defs const_defs Let_def)
  from g c show ?thesis by blast
qed

end

